theory Spec2Isabelle
  imports Complex_Main "HOL-Library.Product_Lexorder" "HOL-Library.Sublist"
begin

section \<open>Tables: the part of pandas that main.py uses\<close>

text \<open>
  main.py keeps three pandas DataFrames (D1, D2, D3) and answers a request by filtering
  D1, propagating the surviving machine ids to D2, truncating the result for display and
  averaging a numeric column per timestamp. The development below embeds the four
  functions \<^verbatim>\<open>filter_d1\<close>, \<^verbatim>\<open>filter_d2_by_d1\<close>, \<^verbatim>\<open>build_avg_time_series\<close> and
  \<^verbatim>\<open>get_data\<close>, together with the DataFrame operations they call.

  A naive pandas Timestamp is the tuple of its calendar fields
  (year, month, day, hour, minute, second, microsecond, nanosecond); the lexicographic
  order on the tuple is the chronological order. The numbers of a table are values of a
  type \<open>'f\<close> whose arithmetic is left open (see \<open>mean\<close>). \<open>Null\<close> stands for NaN, None
  and NaT.
\<close>

datatype error = KeyError | AttributeError | ValueError

text \<open>The dtype of a column: \<open>Number\<close> for the integer and float dtypes (what
  \<^verbatim>\<open>select_dtypes(include="number")\<close> selects), \<open>Datetime\<close> for \<^verbatim>\<open>datetime64\<close>, \<open>Object\<close>
  for strings and everything else.\<close>

datatype dtype = Number | Datetime | Object

type_synonym tstamp = "nat \<times> nat \<times> nat \<times> nat \<times> nat \<times> nat \<times> nat \<times> nat"

datatype 'f cell = Str string | Num 'f | Time tstamp | Null

record 'f frame =
  columns :: "(string \<times> dtype) list"
  rows :: "'f cell list list"

text \<open>One chart point, \<^verbatim>\<open>{"timestamp": ..., "avg": ...}\<close>; \<open>None\<close> is the float NaN.\<close>

record 'f point =
  timestamp :: string
  avg :: "'f option"

text \<open>The JSON content of a response of \<^verbatim>\<open>/api/data\<close>; a displayed row is a dict.\<close>

record 'f response =
  rows_out :: "(string \<times> 'f cell) list list"
  average :: "'f point list"

definition column_names :: "'f frame \<Rightarrow> string list" where
  "column_names df = map fst (columns df)"

text \<open>\<^verbatim>\<open>df.empty\<close>: some axis has length zero.\<close>

definition empty_frame :: "'f frame \<Rightarrow> bool" where
  "empty_frame df = (rows df = [] \<or> columns df = [])"

fun index_of :: "string \<Rightarrow> string list \<Rightarrow> nat option" where
  "index_of c [] = None"
| "index_of c (n # ns) =
     (if n = c then Some 0 else (case index_of c ns of None \<Rightarrow> None | Some i \<Rightarrow> Some (Suc i)))"

definition cell_at :: "nat \<Rightarrow> 'f cell list \<Rightarrow> 'f cell" where
  "cell_at i r = (if i < length r then r ! i else Null)"

text \<open>\<^verbatim>\<open>df[c]\<close>: the column as a list of cells, KeyError when there is no such column.\<close>

definition series :: "'f frame \<Rightarrow> string \<Rightarrow> error + 'f cell list" where
  "series df c =
     (case index_of c (column_names df) of
        None \<Rightarrow> Inl KeyError
      | Some i \<Rightarrow> Inr (map (cell_at i) (rows df)))"

text \<open>\<^verbatim>\<open>s.isin(values)\<close>: one boolean per cell.\<close>

definition isin :: "'f cell list \<Rightarrow> 'f cell list \<Rightarrow> bool list" where
  "isin s vals = map (\<lambda>v. v \<in> set vals) s"

text \<open>\<^verbatim>\<open>df[mask]\<close>: the rows whose mask entry is true, in their order.\<close>

definition bool_index :: "'f frame \<Rightarrow> bool list \<Rightarrow> 'f frame" where
  "bool_index df keep = df\<lparr>rows := map snd (filter fst (zip keep (rows df)))\<rparr>"

text \<open>\<^verbatim>\<open>s.unique()\<close>: the distinct values in order of first appearance.\<close>

definition unique :: "'f cell list \<Rightarrow> 'f cell list" where
  "unique s = rev (remdups (rev s))"

text \<open>\<^verbatim>\<open>df.head(n)\<close> for a non-negative \<open>n\<close>.\<close>

definition head :: "nat \<Rightarrow> 'f frame \<Rightarrow> 'f frame" where
  "head n df = df\<lparr>rows := take n (rows df)\<rparr>"

text \<open>\<^verbatim>\<open>pd.DataFrame(columns=cols)\<close>: no rows, every column of dtype object.\<close>

definition empty_like :: "'f frame \<Rightarrow> 'f frame" where
  "empty_like df = \<lparr>columns = map (\<lambda>n. (n, Object)) (column_names df), rows = []\<rparr>"

text \<open>\<^verbatim>\<open>df.select_dtypes(include="number").columns.tolist()\<close>.\<close>

definition numeric_cols :: "'f frame \<Rightarrow> string list" where
  "numeric_cols df = map fst (filter (\<lambda>(n, t). t = Number) (columns df))"

text \<open>\<^verbatim>\<open>df.to_dict(orient="records")\<close>.\<close>

definition to_dict :: "'f frame \<Rightarrow> (string \<times> 'f cell) list list" where
  "to_dict df = map (\<lambda>r. zip (column_names df) r) (rows df)"

subsection \<open>Rendering timestamps\<close>

definition digit :: "nat \<Rightarrow> char" where
  "digit n = ''0123456789'' ! (n mod 10)"

text \<open>\<open>pad w n\<close> is \<^verbatim>\<open>"%0wd" % n\<close> for \<open>n < 10 ^ w\<close>, which the calendar fields are.\<close>

fun pad :: "nat \<Rightarrow> nat \<Rightarrow> string" where
  "pad 0 n = []"
| "pad (Suc w) n = pad w (n div 10) @ [digit n]"

text \<open>\<^verbatim>\<open>Timestamp.isoformat()\<close>: the fraction is printed only when it is not zero,
  six digits, or nine when there are nanoseconds.\<close>

fun isoformat :: "tstamp \<Rightarrow> string" where
  "isoformat (y, mo, d, h, mi, s, us, ns) =
     pad 4 y @ ''-'' @ pad 2 mo @ ''-'' @ pad 2 d @ ''T'' @ pad 2 h @ '':'' @ pad 2 mi @ '':'' @ pad 2 s @
     (if ns \<noteq> 0 then ''.'' @ pad 6 us @ pad 3 ns
      else if us \<noteq> 0 then ''.'' @ pad 6 us
      else [])"

text \<open>\<^verbatim>\<open>strftime("%Y-%m-%d %H:%M:%S")\<close>.\<close>

fun strftime :: "tstamp \<Rightarrow> string" where
  "strftime (y, mo, d, h, mi, s, us, ns) =
     pad 4 y @ ''-'' @ pad 2 mo @ ''-'' @ pad 2 d @ '' '' @ pad 2 h @ '':'' @ pad 2 mi @ '':'' @ pad 2 s"

text \<open>\<^verbatim>\<open>s.dt.strftime(fmt)\<close> on the cells of a datetime column: NaT becomes null.\<close>

fun strftime_cell :: "'f cell \<Rightarrow> 'f cell" where
  "strftime_cell (Time t) = Str (strftime t)"
| "strftime_cell c = Null"

text \<open>
  \<^verbatim>\<open>rows["timestamp"] = rows["timestamp"].dt.strftime(...)\<close>. The \<^verbatim>\<open>.dt\<close> accessor
  exists only on a column of datetime dtype; on any other dtype pandas raises
  AttributeError, whatever the column holds (also when it holds nothing).
\<close>

definition set_column :: "'f frame \<Rightarrow> nat \<Rightarrow> ('f cell \<Rightarrow> 'f cell) \<Rightarrow> 'f frame" where
  "set_column df i f =
     \<lparr>columns = (columns df)[i := (fst (columns df ! i), Object)],
      rows = map (\<lambda>r. r[i := f (cell_at i r)]) (rows df)\<rparr>"

definition strftime_column :: "'f frame \<Rightarrow> error + 'f frame" where
  "strftime_column df =
     (case index_of ''timestamp'' (column_names df) of
        None \<Rightarrow> Inl KeyError
      | Some i \<Rightarrow>
          if snd (columns df ! i) = Datetime then Inr (set_column df i strftime_cell)
          else Inl AttributeError)"

section \<open>Filter engine\<close>

text \<open>A query parameter is \<^verbatim>\<open>Optional[List[str]]\<close>; it is truthy when it is a
  non-empty list.\<close>

fun truthy :: "string list option \<Rightarrow> bool" where
  "truthy None = False"
| "truthy (Some []) = False"
| "truthy (Some (v # vs)) = True"

fun values_of :: "string list option \<Rightarrow> 'f cell list" where
  "values_of None = []"
| "values_of (Some vs) = map Str vs"

text \<open>One step of \<^verbatim>\<open>filter_d1\<close>:
  \<^verbatim>\<open>if sel: df = df[df[c].isin(sel)]\<close>.\<close>

definition restrict :: "string \<Rightarrow> string list option \<Rightarrow> 'f frame \<Rightarrow> error + 'f frame" where
  "restrict c sel df =
     (if truthy sel then
        (case series df c of
           Inl e \<Rightarrow> Inl e
         | Inr s \<Rightarrow> Inr (bool_index df (isin s (values_of sel))))
      else Inr df)"

definition filter_d1 ::
  "'f frame \<Rightarrow> string list option \<Rightarrow> string list option \<Rightarrow> string list option \<Rightarrow> error + 'f frame" where
  "filter_d1 d1 machine_ids part_numbers tool_numbers =
     (case restrict ''machine_id'' machine_ids d1 of
        Inl e \<Rightarrow> Inl e
      | Inr df1 \<Rightarrow>
          (case restrict ''part_number'' part_numbers df1 of
             Inl e \<Rightarrow> Inl e
           | Inr df2 \<Rightarrow> restrict ''tool_number'' tool_numbers df2))"

definition filter_d2_by_d1 :: "'f frame \<Rightarrow> 'f frame \<Rightarrow> error + 'f frame" where
  "filter_d2_by_d1 d2 d1_filtered =
     (if empty_frame d1_filtered then Inr (empty_like d2)
      else
        (case series d1_filtered ''machine_id'' of
           Inl e \<Rightarrow> Inl e
         | Inr ms \<Rightarrow>
             (case series d2 ''machine_id'' of
                Inl e \<Rightarrow> Inl e
              | Inr s \<Rightarrow> Inr (bool_index d2 (isin s (unique ms))))))"

section \<open>Aggregation engine\<close>

fun num_of :: "'f cell \<Rightarrow> 'f option" where
  "num_of (Num q) = Some q"
| "num_of c = None"

text \<open>
  \<^verbatim>\<open>.mean()\<close> on the target cells of one group. pandas skips the null cells; a group
  with no value at all has mean NaN; otherwise the mean is computed in float64 arithmetic
  from the remaining values, in row order. That arithmetic (rounding, overflow to
  infinity, the order of summation) is not modelled: \<open>'f\<close> is the type of the numbers a
  table holds (every int64 or float64 value except NaN), and the float64 mean of a
  non-empty list of them is the parameter \<open>fmean\<close> of the model, with \<open>None\<close> for a
  mean that is NaN. Every function that averages takes \<open>fmean\<close> as its first argument.
\<close>

definition mean :: "('f list \<Rightarrow> 'f option) \<Rightarrow> 'f cell list \<Rightarrow> 'f cell" where
  "mean fmean cs =
     (case List.map_filter num_of cs of
        [] \<Rightarrow> Null
      | v # vs \<Rightarrow> (case fmean (v # vs) of None \<Rightarrow> Null | Some m \<Rightarrow> Num m))"

text \<open>The group keys of \<^verbatim>\<open>df.groupby("timestamp")\<close>: null keys are dropped. A key
  that is not a Timestamp makes the source fail later, at \<^verbatim>\<open>ts.isoformat()\<close>, with
  AttributeError; the model fails here, before it would have to order such keys.\<close>

fun times_of :: "'f cell list \<Rightarrow> tstamp list option" where
  "times_of [] = Some []"
| "times_of (Null # cs) = times_of cs"
| "times_of (Time t # cs) = (case times_of cs of None \<Rightarrow> None | Some ts \<Rightarrow> Some (t # ts))"
| "times_of (c # cs) = None"

text \<open>The target cells of the rows of one group.\<close>

definition group_cells :: "('f cell \<times> 'f cell) list \<Rightarrow> tstamp \<Rightarrow> 'f cell list" where
  "group_cells kvs t = map snd (filter (\<lambda>(k, v). k = Time t) kvs)"

text \<open>
  \<^verbatim>\<open>df.groupby("timestamp")[target_col].mean().reset_index()\<close>: a new frame of two
  columns with one row per key, the keys ascending. \<^verbatim>\<open>reset_index\<close> raises ValueError
  when the target is the key column itself.
\<close>

definition groupby_mean :: "('f list \<Rightarrow> 'f option) \<Rightarrow> 'f frame \<Rightarrow> string \<Rightarrow> error + 'f frame" where
  "groupby_mean fmean df target_col =
     (case series df ''timestamp'' of
        Inl e \<Rightarrow> Inl e
      | Inr ks \<Rightarrow>
          (case series df target_col of
             Inl e \<Rightarrow> Inl e
           | Inr vs \<Rightarrow>
               if target_col = ''timestamp'' then Inl ValueError
               else
                 (case times_of ks of
                    None \<Rightarrow> Inl AttributeError
                  | Some ts \<Rightarrow>
                      Inr \<lparr>columns = [(''timestamp'', Datetime), (target_col, Number)],
                           rows = map (\<lambda>t. [Time t, mean fmean (group_cells (zip ks vs) t)])
                                    (sort (remdups ts))\<rparr>)))"

text \<open>\<^verbatim>\<open>df.sort_values("timestamp")\<close> on a frame whose timestamp column has no null
  (a stable sort of the rows by that column).\<close>

fun time_key :: "'f cell \<Rightarrow> tstamp" where
  "time_key (Time t) = t"
| "time_key c = (0, 0, 0, 0, 0, 0, 0, 0)"

definition sort_values :: "'f frame \<Rightarrow> error + 'f frame" where
  "sort_values df =
     (case index_of ''timestamp'' (column_names df) of
        None \<Rightarrow> Inl KeyError
      | Some i \<Rightarrow> Inr (df\<lparr>rows := sort_key (\<lambda>r. time_key (cell_at i r)) (rows df)\<rparr>))"

text \<open>One element of the list comprehension of lines 115 to 121:
  \<^verbatim>\<open>{"timestamp": ts.isoformat(), "avg": float(val)}\<close>.\<close>

fun make_point :: "'f cell \<times> 'f cell \<Rightarrow> error + 'f point" where
  "make_point (Time t, val) = Inr \<lparr>timestamp = isoformat t, avg = num_of val\<rparr>"
| "make_point (ts, val) = Inl AttributeError"

text \<open>A comprehension stops at the first element that raises.\<close>

fun collect :: "(error + 'a) list \<Rightarrow> error + 'a list" where
  "collect [] = Inr []"
| "collect (Inl e # xs) = Inl e"
| "collect (Inr x # xs) = (case collect xs of Inl e \<Rightarrow> Inl e | Inr ys \<Rightarrow> Inr (x # ys))"

definition series_points :: "'f frame \<Rightarrow> string \<Rightarrow> error + 'f point list" where
  "series_points grouped target_col =
     (case series grouped ''timestamp'' of
        Inl e \<Rightarrow> Inl e
      | Inr tss \<Rightarrow>
          (case series grouped target_col of
             Inl e \<Rightarrow> Inl e
           | Inr vals \<Rightarrow> collect (map make_point (zip tss vals))))"

text \<open>Lines 113 to 121 of \<^verbatim>\<open>build_avg_time_series\<close>.\<close>

definition aggregate :: "('f list \<Rightarrow> 'f option) \<Rightarrow> 'f frame \<Rightarrow> string \<Rightarrow> error + 'f point list" where
  "aggregate fmean df target_col =
     (case groupby_mean fmean df target_col of
        Inl e \<Rightarrow> Inl e
      | Inr grouped \<Rightarrow>
          (case sort_values grouped of
             Inl e \<Rightarrow> Inl e
           | Inr grouped' \<Rightarrow> series_points grouped' target_col))"

definition build_avg_time_series :: "('f list \<Rightarrow> 'f option) \<Rightarrow> 'f frame \<Rightarrow> error + 'f point list" where
  "build_avg_time_series fmean df =
     (if empty_frame df \<or> ''timestamp'' \<notin> set (column_names df) then Inr []
      else
        (let numeric = numeric_cols df in
         if ''value'' \<in> set numeric then aggregate fmean df ''value''
         else if numeric \<noteq> [] then aggregate fmean df (hd numeric)
         else Inr []))"

section \<open>The endpoint\<close>

definition TABLE_ROW_LIMIT :: nat where
  "TABLE_ROW_LIMIT = 400"

text \<open>Lines 360 to 370 of \<^verbatim>\<open>get_data\<close>, with the row limit as a parameter.
  What is returned is the content handed to \<^verbatim>\<open>JSONResponse\<close>; its serialisation is
  not part of the model.\<close>

definition assemble :: "('f list \<Rightarrow> 'f option) \<Rightarrow> nat \<Rightarrow> 'f frame \<Rightarrow> error + 'f response" where
  "assemble fmean limit d2_filtered =
     (let rows0 = head limit d2_filtered in
      case (if ''timestamp'' \<in> set (column_names rows0) then strftime_column rows0 else Inr rows0) of
        Inl e \<Rightarrow> Inl e
      | Inr rows1 \<Rightarrow>
          (case build_avg_time_series fmean d2_filtered of
             Inl e \<Rightarrow> Inl e
           | Inr avg_series \<Rightarrow> Inr \<lparr>rows_out = to_dict rows1, average = avg_series\<rparr>))"

text \<open>\<^verbatim>\<open>get_data\<close> as a function of the two tables it reads (the module globals
  D1 and D2) and of the three query parameters.\<close>

definition get_data_limit ::
  "('f list \<Rightarrow> 'f option) \<Rightarrow> nat \<Rightarrow> 'f frame \<Rightarrow> 'f frame \<Rightarrow> string list option \<Rightarrow> string list option \<Rightarrow> string list option
     \<Rightarrow> error + 'f response" where
  "get_data_limit fmean limit d1 d2 machine_id part_number tool_number =
     (if \<not> (truthy machine_id \<or> truthy part_number \<or> truthy tool_number)
      then Inr \<lparr>rows_out = [], average = []\<rparr>
      else
        (case filter_d1 d1 machine_id part_number tool_number of
           Inl e \<Rightarrow> Inl e
         | Inr d1_filtered \<Rightarrow>
             (case filter_d2_by_d1 d2 d1_filtered of
                Inl e \<Rightarrow> Inl e
              | Inr d2_filtered \<Rightarrow> assemble fmean limit d2_filtered)))"

definition get_data ::
  "('f list \<Rightarrow> 'f option) \<Rightarrow> 'f frame \<Rightarrow> 'f frame \<Rightarrow> string list option \<Rightarrow> string list option \<Rightarrow> string list option
     \<Rightarrow> error + 'f response" where
  "get_data fmean = get_data_limit fmean TABLE_ROW_LIMIT"

section \<open>The same functions on a store of DataFrame objects\<close>

text \<open>
  The definitions above give the value each function computes. To say which objects a
  request writes, the same statements are run here on a store: the three module globals
  D1, D2 and D3, and the DataFrame objects created since, in order of creation. Every
  pandas call of main.py that returns a DataFrame returns a new object
  (\<^verbatim>\<open>copy\<close>, \<^verbatim>\<open>df[mask]\<close>, \<^verbatim>\<open>head\<close>, \<^verbatim>\<open>pd.DataFrame(...)\<close>, \<^verbatim>\<open>reset_index\<close>);
  two statements write into an existing object: \<^verbatim>\<open>rows["timestamp"] = ...\<close> and
  \<^verbatim>\<open>grouped.sort_values("timestamp", inplace=True)\<close>. The field \<open>calls\<close> is a ghost
  trace: each of the three engine functions appends its name on entry.
\<close>

datatype ref = RD1 | RD2 | RD3 | Local nat

record 'f store =
  D1 :: "'f frame"
  D2 :: "'f frame"
  D3 :: "'f frame"
  locals :: "'f frame list"
  calls :: "string list"

fun deref :: "'f store \<Rightarrow> ref \<Rightarrow> 'f frame" where
  "deref s RD1 = D1 s"
| "deref s RD2 = D2 s"
| "deref s RD3 = D3 s"
| "deref s (Local n) = (if n < length (locals s) then locals s ! n else \<lparr>columns = [], rows = []\<rparr>)"

definition alloc :: "'f frame \<Rightarrow> 'f store \<Rightarrow> ref \<times> 'f store" where
  "alloc f s = (Local (length (locals s)), s\<lparr>locals := locals s @ [f]\<rparr>)"

fun assign :: "ref \<Rightarrow> 'f frame \<Rightarrow> 'f store \<Rightarrow> 'f store" where
  "assign RD1 f s = s\<lparr>D1 := f\<rparr>"
| "assign RD2 f s = s\<lparr>D2 := f\<rparr>"
| "assign RD3 f s = s\<lparr>D3 := f\<rparr>"
| "assign (Local n) f s = s\<lparr>locals := (locals s)[n := f]\<rparr>"

definition enter :: "string \<Rightarrow> 'f store \<Rightarrow> 'f store" where
  "enter name s = s\<lparr>calls := calls s @ [name]\<rparr>"

definition copy_st :: "ref \<Rightarrow> 'f store \<Rightarrow> ref \<times> 'f store" where
  "copy_st r s = alloc (deref s r) s"

definition restrict_st ::
  "string \<Rightarrow> string list option \<Rightarrow> ref \<Rightarrow> 'f store \<Rightarrow> (error + ref) \<times> 'f store" where
  "restrict_st c sel df s =
     (if truthy sel then
        (case series (deref s df) c of
           Inl e \<Rightarrow> (Inl e, s)
         | Inr col \<Rightarrow>
             (case alloc (bool_index (deref s df) (isin col (values_of sel))) s of
                (df', s') \<Rightarrow> (Inr df', s')))
      else (Inr df, s))"

definition filter_d1_st ::
  "ref \<Rightarrow> string list option \<Rightarrow> string list option \<Rightarrow> string list option \<Rightarrow> 'f store
     \<Rightarrow> (error + ref) \<times> 'f store" where
  "filter_d1_st d1 machine_ids part_numbers tool_numbers s0 =
     (case copy_st d1 (enter ''filter_d1'' s0) of
        (df, s1) \<Rightarrow>
          (case restrict_st ''machine_id'' machine_ids df s1 of
             (Inl e, s2) \<Rightarrow> (Inl e, s2)
           | (Inr df1, s2) \<Rightarrow>
               (case restrict_st ''part_number'' part_numbers df1 s2 of
                  (Inl e, s3) \<Rightarrow> (Inl e, s3)
                | (Inr df2, s3) \<Rightarrow> restrict_st ''tool_number'' tool_numbers df2 s3)))"

definition filter_d2_by_d1_st :: "ref \<Rightarrow> ref \<Rightarrow> 'f store \<Rightarrow> (error + ref) \<times> 'f store" where
  "filter_d2_by_d1_st d2 d1_filtered s0 =
     (let s = enter ''filter_d2_by_d1'' s0 in
      if empty_frame (deref s d1_filtered) then
        (case alloc (empty_like (deref s d2)) s of (r, s') \<Rightarrow> (Inr r, s'))
      else
        (case series (deref s d1_filtered) ''machine_id'' of
           Inl e \<Rightarrow> (Inl e, s)
         | Inr ms \<Rightarrow>
             (case series (deref s d2) ''machine_id'' of
                Inl e \<Rightarrow> (Inl e, s)
              | Inr col \<Rightarrow>
                  (case alloc (bool_index (deref s d2) (isin col (unique ms))) s of
                     (r1, s1) \<Rightarrow> (case copy_st r1 s1 of (r2, s2) \<Rightarrow> (Inr r2, s2))))))"

definition aggregate_st :: "('f list \<Rightarrow> 'f option) \<Rightarrow> ref \<Rightarrow> string \<Rightarrow> 'f store \<Rightarrow> (error + 'f point list) \<times> 'f store" where
  "aggregate_st fmean df target_col s =
     (case groupby_mean fmean (deref s df) target_col of
        Inl e \<Rightarrow> (Inl e, s)
      | Inr g \<Rightarrow>
          (case alloc g s of
             (grouped, s1) \<Rightarrow>
               (case sort_values (deref s1 grouped) of
                  Inl e \<Rightarrow> (Inl e, s1)
                | Inr g' \<Rightarrow>
                    (let s2 = assign grouped g' s1
                     in (series_points (deref s2 grouped) target_col, s2)))))"

definition build_avg_time_series_st :: "('f list \<Rightarrow> 'f option) \<Rightarrow> ref \<Rightarrow> 'f store \<Rightarrow> (error + 'f point list) \<times> 'f store" where
  "build_avg_time_series_st fmean df s0 =
     (let s = enter ''build_avg_time_series'' s0 in
      if empty_frame (deref s df) \<or> ''timestamp'' \<notin> set (column_names (deref s df)) then (Inr [], s)
      else
        (let numeric = numeric_cols (deref s df) in
         if ''value'' \<in> set numeric then aggregate_st fmean df ''value'' s
         else if numeric \<noteq> [] then aggregate_st fmean df (hd numeric) s
         else (Inr [], s)))"

definition assemble_st :: "('f list \<Rightarrow> 'f option) \<Rightarrow> nat \<Rightarrow> ref \<Rightarrow> 'f store \<Rightarrow> (error + 'f response) \<times> 'f store" where
  "assemble_st fmean limit d2_filtered s =
     (case alloc (head limit (deref s d2_filtered)) s of
        (h, s1) \<Rightarrow>
          (case copy_st h s1 of
             (rows0, s2) \<Rightarrow>
               (case (if ''timestamp'' \<in> set (column_names (deref s2 rows0)) then
                        (case strftime_column (deref s2 rows0) of
                           Inl e \<Rightarrow> (Inl e, s2)
                         | Inr f \<Rightarrow> (Inr (), assign rows0 f s2))
                      else (Inr (), s2)) of
                  (Inl e, s3) \<Rightarrow> (Inl e, s3)
                | (Inr u, s3) \<Rightarrow>
                    (case build_avg_time_series_st fmean d2_filtered s3 of
                       (Inl e, s4) \<Rightarrow> (Inl e, s4)
                     | (Inr avg_series, s4) \<Rightarrow>
                         (Inr \<lparr>rows_out = to_dict (deref s3 rows0), average = avg_series\<rparr>, s4)))))"

definition get_data_st ::
  "('f list \<Rightarrow> 'f option) \<Rightarrow> nat \<Rightarrow> string list option \<Rightarrow> string list option \<Rightarrow> string list option \<Rightarrow> 'f store
     \<Rightarrow> (error + 'f response) \<times> 'f store" where
  "get_data_st fmean limit machine_id part_number tool_number s =
     (if \<not> (truthy machine_id \<or> truthy part_number \<or> truthy tool_number)
      then (Inr \<lparr>rows_out = [], average = []\<rparr>, s)
      else
        (case filter_d1_st RD1 machine_id part_number tool_number s of
           (Inl e, s1) \<Rightarrow> (Inl e, s1)
         | (Inr d1_filtered, s1) \<Rightarrow>
             (case filter_d2_by_d1_st RD2 d1_filtered s1 of
                (Inl e, s2) \<Rightarrow> (Inl e, s2)
              | (Inr d2_filtered, s2) \<Rightarrow> assemble_st fmean limit d2_filtered s2)))"

text \<open>Every object of \<open>s\<close> is an object of \<open>s'\<close> with the same content.\<close>

definition preserved :: "'f store \<Rightarrow> 'f store \<Rightarrow> bool" where
  "preserved s s' = (D1 s' = D1 s \<and> D2 s' = D2 s \<and> D3 s' = D3 s \<and> prefix (locals s) (locals s'))"

fun valid_ref :: "'f store \<Rightarrow> ref \<Rightarrow> bool" where
  "valid_ref s (Local n) = (n < length (locals s))"
| "valid_ref s r = True"

text \<open>A result of a store function holds the value a function on frames computes.\<close>

definition ref_holds :: "'f store \<Rightarrow> error + ref \<Rightarrow> error + 'f frame \<Rightarrow> bool" where
  "ref_holds s out res =
     (case out of
        Inl e \<Rightarrow> res = Inl e
      | Inr r \<Rightarrow> valid_ref s r \<and> res = Inr (deref s r))"

section \<open>Vocabulary of the specification\<close>

text \<open>The value of a row for a column (null when the frame has no such column).\<close>

definition value_in :: "'f frame \<Rightarrow> string \<Rightarrow> 'f cell list \<Rightarrow> 'f cell" where
  "value_in df c r = (case index_of c (column_names df) of None \<Rightarrow> Null | Some i \<Rightarrow> cell_at i r)"

definition column_values :: "'f frame \<Rightarrow> string \<Rightarrow> 'f cell list" where
  "column_values df c = map (value_in df c) (rows df)"

definition dtype_of :: "'f frame \<Rightarrow> string \<Rightarrow> dtype option" where
  "dtype_of df c = map_of (columns df) c"

text \<open>A selection admits a row: the selection of the column is absent or empty, or the
  row's value for the column is one of the selected strings.\<close>

definition admits :: "'f frame \<Rightarrow> string \<Rightarrow> string list option \<Rightarrow> 'f cell list \<Rightarrow> bool" where
  "admits df c sel r =
     (case sel of
        None \<Rightarrow> True
      | Some [] \<Rightarrow> True
      | Some (v # vs) \<Rightarrow> value_in df c r \<in> Str ` set (v # vs))"

text \<open>A frame as pandas holds it: distinct column labels, and in every row one cell
  per column, of the column's dtype (a number or NaN, a timestamp or NaT, any object).
  The fields of a timestamp are in their calendar ranges.\<close>

fun valid_tstamp :: "tstamp \<Rightarrow> bool" where
  "valid_tstamp (y, mo, d, h, mi, s, us, ns) =
     (y < 10000 \<and> 1 \<le> mo \<and> mo \<le> 12 \<and> 1 \<le> d \<and> d \<le> 31 \<and> h < 24 \<and> mi < 60 \<and> s < 60
      \<and> us < 1000000 \<and> ns < 1000)"

fun fits :: "dtype \<Rightarrow> 'f cell \<Rightarrow> bool" where
  "fits Number (Num q) = True"
| "fits Number Null = True"
| "fits Number c = False"
| "fits Datetime (Time t) = valid_tstamp t"
| "fits Datetime Null = True"
| "fits Datetime c = False"
| "fits Object c = True"

definition wf_frame :: "'f frame \<Rightarrow> bool" where
  "wf_frame df =
     (distinct (column_names df) \<and> list_all (list_all2 fits (map snd (columns df))) (rows df))"

text \<open>The float64 mean of a list of numbers; NaN (\<open>None\<close>) for the empty list.\<close>

definition mean_of :: "('f list \<Rightarrow> 'f option) \<Rightarrow> 'f list \<Rightarrow> 'f option" where
  "mean_of fmean vs = (if vs = [] then None else fmean vs)"

text \<open>The rows of a timestamp group, and the non-null values of a column among them.\<close>

definition group_rows :: "'f frame \<Rightarrow> tstamp \<Rightarrow> 'f cell list list" where
  "group_rows df t = filter (\<lambda>r. value_in df ''timestamp'' r = Time t) (rows df)"

definition group_values :: "'f frame \<Rightarrow> string \<Rightarrow> tstamp \<Rightarrow> 'f list" where
  "group_values df c t = List.map_filter (\<lambda>r. num_of (value_in df c r)) (group_rows df t)"

text \<open>The target column as the specification words it: the numeric column named
  \<open>value\<close> if there is one, else the first numeric column in column order.\<close>

definition spec_target :: "'f frame \<Rightarrow> string option" where
  "spec_target df =
     (if (''value'', Number) \<in> set (columns df) then Some ''value''
      else map_option fst (find (\<lambda>(n, t). t = Number) (columns df)))"

text \<open>The table without the rows whose value for a column is null.\<close>

definition drop_null :: "'f frame \<Rightarrow> string \<Rightarrow> 'f frame" where
  "drop_null df c = df\<lparr>rows := filter (\<lambda>r. value_in df c r \<noteq> Null) (rows df)\<rparr>"

section \<open>Example tables\<close>

text \<open>The instance of the parameter \<open>fmean\<close> at which the examples are run. The numbers
  of the example tables are small integers whose sums and means are small integers too;
  float64 arithmetic is exact on them, so that there the float64 mean is the sum divided
  by the count. The theorems below are about every \<open>fmean\<close>, not about this instance.\<close>

definition example_mean :: "rat list \<Rightarrow> rat option" where
  "example_mean vs = Some (sum_list vs / of_nat (length vs))"

text \<open>A small Attributes table and a small Measurements table, as \<^verbatim>\<open>load_data\<close>
  leaves them (the timestamp column of D2 is of datetime dtype). Machine M1 has five
  measurements, one with a null value and one with a null timestamp.\<close>

definition attributes_example :: "rat frame" where
  "attributes_example =
     \<lparr>columns = [(''machine_id'', Object), (''part_number'', Object), (''tool_number'', Object)],
      rows = [[Str ''M1'', Str ''P1'', Str ''T1''],
              [Str ''M2'', Str ''P1'', Str ''T2''],
              [Str ''M1'', Str ''P2'', Str ''T1''],
              [Str ''M1'', Str ''P1'', Str ''T3'']]\<rparr>"

definition measurements_example :: "rat frame" where
  "measurements_example =
     \<lparr>columns = [(''machine_id'', Object), (''timestamp'', Datetime), (''value'', Number)],
      rows = [[Str ''M1'', Time (2024, 3, 1, 8, 0, 5, 0, 0), Num 30],
              [Str ''M2'', Time (2024, 3, 1, 8, 0, 0, 0, 0), Num 99],
              [Str ''M1'', Time (2024, 3, 1, 8, 0, 0, 0, 0), Num 10],
              [Str ''M1'', Time (2024, 3, 1, 8, 0, 0, 0, 0), Null],
              [Str ''M1'', Null, Num 7],
              [Str ''M1'', Time (2024, 3, 1, 8, 0, 0, 0, 0), Num 20],
              [Str ''M3'', Time (2024, 3, 1, 7, 59, 59, 250, 0), Null]]\<rparr>"

text \<open>A Measurements subset without a \<open>value\<close> column.\<close>

definition pressure_example :: "rat frame" where
  "pressure_example =
     \<lparr>columns = [(''machine_id'', Object), (''timestamp'', Datetime), (''pressure'', Number),
                 (''temperature'', Number)],
      rows = [[Str ''M1'', Time (2024, 3, 1, 8, 0, 0, 0, 0), Num 4, Num 70],
              [Str ''M1'', Time (2024, 3, 1, 8, 0, 0, 0, 0), Num 6, Num 90]]\<rparr>"

definition store_example :: "rat store" where
  "store_example =
     \<lparr>D1 = attributes_example, D2 = measurements_example, D3 = \<lparr>columns = [], rows = []\<rparr>,
      locals = [], calls = []\<rparr>"

section \<open>Rules for evaluating the model on concrete tables\<close>

lemma pad_numeral: "pad (numeral k) n = pad (pred_numeral k) (n div 10) @ [digit n]"
proof -
  have "pad (Suc (pred_numeral k)) n = pad (pred_numeral k) (n div 10) @ [digit n]"
    by (rule pad.simps)
  then show ?thesis
    by (simp only: numeral_eq_Suc [of k])
qed

lemma pad_1: "pad (Suc 0) n = [digit n]"
  by simp

lemmas render_simps = pad_numeral pad_1 digit_def

lemmas frame_defs = empty_frame_def column_names_def numeric_cols_def series_def cell_at_def
  isin_def bool_index_def unique_def head_def empty_like_def to_dict_def set_column_def
  strftime_column_def restrict_def filter_d1_def filter_d2_by_d1_def

lemmas aggregation_defs = build_avg_time_series_def aggregate_def groupby_mean_def group_cells_def
  mean_def example_mean_def map_filter_simps sort_values_def series_points_def

lemmas spec_defs = value_in_def column_values_def dtype_of_def admits_def wf_frame_def
  mean_of_def group_rows_def group_values_def spec_target_def

section \<open>Filter engine: what the two filters retain\<close>

lemma index_of_Some_iff: "(\<exists>i. index_of c ns = Some i) \<longleftrightarrow> c \<in> set ns"
  by (induction ns) (auto split: option.splits)

lemma mask_filter: "map snd (filter fst (zip (map P xs) xs)) = filter P xs"
  by (induction xs) auto

lemma bool_index_isin:
  "bool_index df (isin (map f (rows df)) vals) = df\<lparr>rows := filter (\<lambda>r. f r \<in> set vals) (rows df)\<rparr>"
  by (simp add: bool_index_def isin_def map_map comp_def mask_filter [of "\<lambda>r. f r \<in> set vals"])

lemma admits_iff:
  "admits df c sel r = (truthy sel \<longrightarrow> value_in df c r \<in> set (values_of sel))"
  by (cases sel rule: truthy.cases) (simp_all add: admits_def)

lemma restrict_spec:
  assumes "truthy sel \<longrightarrow> c \<in> set (column_names df)"
  shows "restrict c sel df = Inr (df\<lparr>rows := filter (admits df c sel) (rows df)\<rparr>)"
proof (cases "truthy sel")
  case False
  then show ?thesis by (simp add: restrict_def admits_iff)
next
  case True
  with assms obtain i where i: "index_of c (column_names df) = Some i"
    using index_of_Some_iff by blast
  have "admits df c sel = (\<lambda>r. cell_at i r \<in> set (values_of sel))"
    using True i by (auto simp: admits_iff value_in_def fun_eq_iff)
  then show ?thesis
    using True i by (simp add: restrict_def series_def bool_index_isin)
qed

lemma admits_rows_update: "admits (df\<lparr>rows := xs\<rparr>) c sel = admits df c sel"
  by (simp add: admits_iff value_in_def column_names_def fun_eq_iff)

lemma column_names_rows_update: "column_names (df\<lparr>rows := xs\<rparr>) = column_names df"
  by (simp add: column_names_def)

text \<open>
  C2. \<^verbatim>\<open>filter_d1\<close> keeps exactly the rows that every non-empty selection admits: for
  each of the three columns given with a non-empty list of values, the row's value is one
  of them; an absent or empty selection constrains nothing; the three conditions are
  conjoined; the surviving rows keep the order of the source table. A constrained column
  has to exist in the table (the three columns are fields of every attribute record).
\<close>

theorem filter_d1_retains:
  assumes "truthy machine_ids \<longrightarrow> ''machine_id'' \<in> set (column_names d1)"
    and "truthy part_numbers \<longrightarrow> ''part_number'' \<in> set (column_names d1)"
    and "truthy tool_numbers \<longrightarrow> ''tool_number'' \<in> set (column_names d1)"
  shows "\<exists>df. filter_d1 d1 machine_ids part_numbers tool_numbers = Inr df
           \<and> columns df = columns d1
           \<and> rows df = filter (\<lambda>r. admits d1 ''machine_id'' machine_ids r
                                   \<and> admits d1 ''part_number'' part_numbers r
                                   \<and> admits d1 ''tool_number'' tool_numbers r) (rows d1)
           \<and> subseq (rows df) (rows d1)"
proof -
  let ?A = "admits d1 ''machine_id'' machine_ids"
  let ?B = "admits d1 ''part_number'' part_numbers"
  let ?C = "admits d1 ''tool_number'' tool_numbers"
  define df1 where "df1 = d1\<lparr>rows := filter ?A (rows d1)\<rparr>"
  define df2 where "df2 = df1\<lparr>rows := filter ?B (rows df1)\<rparr>"
  define df3 where "df3 = df2\<lparr>rows := filter ?C (rows df2)\<rparr>"
  have n1: "column_names df1 = column_names d1" and n2: "column_names df2 = column_names d1"
    by (simp_all add: df1_def df2_def column_names_rows_update)
  have s1: "restrict ''machine_id'' machine_ids d1 = Inr df1"
    unfolding df1_def using assms(1) by (rule restrict_spec)
  have "restrict ''part_number'' part_numbers df1
          = Inr (df1\<lparr>rows := filter (admits df1 ''part_number'' part_numbers) (rows df1)\<rparr>)"
    using assms(2) n1 by (intro restrict_spec) simp
  then have s2: "restrict ''part_number'' part_numbers df1 = Inr df2"
    by (simp add: df2_def df1_def admits_rows_update)
  have "restrict ''tool_number'' tool_numbers df2
          = Inr (df2\<lparr>rows := filter (admits df2 ''tool_number'' tool_numbers) (rows df2)\<rparr>)"
    using assms(3) n2 by (intro restrict_spec) simp
  then have s3: "restrict ''tool_number'' tool_numbers df2 = Inr df3"
    by (simp add: df3_def df2_def df1_def admits_rows_update)
  have run: "filter_d1 d1 machine_ids part_numbers tool_numbers = Inr df3"
    by (simp add: filter_d1_def s1 s2 s3)
  have cols3: "columns df3 = columns d1"
    by (simp add: df3_def df2_def df1_def)
  have rows3: "rows df3 = filter (\<lambda>r. ?A r \<and> ?B r \<and> ?C r) (rows d1)"
    by (simp add: df3_def df2_def df1_def conj_commute conj_left_commute)
  have "subseq (rows df3) (rows d1)"
    unfolding rows3 by (rule subseq_filter_left)
  with run cols3 rows3 show ?thesis by blast
qed

theorem filter_d1_retains_witness:
  "(truthy (Some [''M1'']) \<and> ''machine_id'' \<in> set (column_names attributes_example))
   \<and> (truthy (Some [''P1'', ''P9'']) \<and> ''part_number'' \<in> set (column_names attributes_example))
   \<and> \<not> truthy (Some [])
   \<and> (\<exists>df. filter_d1 attributes_example (Some [''M1'']) (Some [''P1'', ''P9'']) (Some []) = Inr df
          \<and> columns df = columns attributes_example
          \<and> rows df = filter (\<lambda>r. admits attributes_example ''machine_id'' (Some [''M1'']) r
                                  \<and> admits attributes_example ''part_number'' (Some [''P1'', ''P9'']) r
                                  \<and> admits attributes_example ''tool_number'' (Some []) r)
                          (rows attributes_example)
          \<and> subseq (rows df) (rows attributes_example))
   \<and> filter_d1 attributes_example (Some [''M1'']) (Some [''P1'', ''P9'']) (Some []) =
       Inr (attributes_example\<lparr>rows := [[Str ''M1'', Str ''P1'', Str ''T1''],
                                         [Str ''M1'', Str ''P1'', Str ''T3'']]\<rparr>)"
proof -
  have h1: "truthy (Some [''M1'']) \<longrightarrow> ''machine_id'' \<in> set (column_names attributes_example)"
    and h2: "truthy (Some [''P1'', ''P9'']) \<longrightarrow> ''part_number'' \<in> set (column_names attributes_example)"
    and h3: "truthy (Some []) \<longrightarrow> ''tool_number'' \<in> set (column_names attributes_example)"
    by (simp_all add: attributes_example_def column_names_def)
  have v: "filter_d1 attributes_example (Some [''M1'']) (Some [''P1'', ''P9'']) (Some []) =
       Inr (attributes_example\<lparr>rows := [[Str ''M1'', Str ''P1'', Str ''T1''],
                                         [Str ''M1'', Str ''P1'', Str ''T3'']]\<rparr>)"
    by (simp add: attributes_example_def frame_defs)
  from filter_d1_retains [OF h1 h2 h3] v show ?thesis
    by (simp add: attributes_example_def column_names_def)
qed

lemma set_unique: "set (unique s) = set s"
  by (simp add: unique_def)

lemma series_column_values:
  "c \<in> set (column_names df) \<Longrightarrow> series df c = Inr (column_values df c)"
proof -
  assume "c \<in> set (column_names df)"
  then obtain i where "index_of c (column_names df) = Some i"
    using index_of_Some_iff by blast
  then show ?thesis by (simp add: series_def column_values_def value_in_def)
qed

lemma bool_index_column_values:
  "bool_index df (isin (column_values df c) vals)
     = df\<lparr>rows := filter (\<lambda>r. value_in df c r \<in> set vals) (rows df)\<rparr>"
  unfolding column_values_def by (rule bool_index_isin)

text \<open>
  C3. \<^verbatim>\<open>filter_d2_by_d1\<close> on an empty attributes subset returns, without raising, a table
  of no rows with the column labels of Measurements (their dtypes are reset to object).
  Otherwise it returns exactly the measurement rows whose \<open>machine_id\<close> occurs in the
  \<open>machine_id\<close> column of the attributes subset, in their order and with the columns of
  Measurements only.
\<close>

theorem filter_d2_by_d1_semi_join:
  "(empty_frame d1_filtered \<longrightarrow>
      (\<exists>df. filter_d2_by_d1 d2 d1_filtered = Inr df \<and> rows df = []
            \<and> column_names df = column_names d2))
   \<and> (\<not> empty_frame d1_filtered
        \<and> ''machine_id'' \<in> set (column_names d1_filtered)
        \<and> ''machine_id'' \<in> set (column_names d2) \<longrightarrow>
      filter_d2_by_d1 d2 d1_filtered =
        Inr (d2\<lparr>rows := filter (\<lambda>r. value_in d2 ''machine_id'' r
                                        \<in> set (column_values d1_filtered ''machine_id''))
                             (rows d2)\<rparr>))"
proof (intro conjI impI)
  assume "empty_frame d1_filtered"
  then have "filter_d2_by_d1 d2 d1_filtered = Inr (empty_like d2)"
    by (simp add: filter_d2_by_d1_def)
  moreover have "rows (empty_like d2) = []" "column_names (empty_like d2) = column_names d2"
    by (simp_all add: empty_like_def column_names_def comp_def)
  ultimately show "\<exists>df. filter_d2_by_d1 d2 d1_filtered = Inr df \<and> rows df = []
            \<and> column_names df = column_names d2"
    by blast
next
  assume h: "\<not> empty_frame d1_filtered \<and> ''machine_id'' \<in> set (column_names d1_filtered)
        \<and> ''machine_id'' \<in> set (column_names d2)"
  then show "filter_d2_by_d1 d2 d1_filtered =
        Inr (d2\<lparr>rows := filter (\<lambda>r. value_in d2 ''machine_id'' r
                                        \<in> set (column_values d1_filtered ''machine_id''))
                             (rows d2)\<rparr>)"
    by (simp add: filter_d2_by_d1_def series_column_values bool_index_column_values set_unique)
qed

theorem filter_d2_by_d1_semi_join_witness:
  "empty_frame (attributes_example\<lparr>rows := []\<rparr>)
   \<and> filter_d2_by_d1 measurements_example (attributes_example\<lparr>rows := []\<rparr>) =
       Inr \<lparr>columns = [(''machine_id'', Object), (''timestamp'', Object), (''value'', Object)],
            rows = []\<rparr>
   \<and> \<not> empty_frame (attributes_example\<lparr>rows := [[Str ''M2'', Str ''P1'', Str ''T2'']]\<rparr>)
   \<and> filter_d2_by_d1 measurements_example
         (attributes_example\<lparr>rows := [[Str ''M2'', Str ''P1'', Str ''T2'']]\<rparr>) =
       Inr (measurements_example\<lparr>rows := [[Str ''M2'', Time (2024, 3, 1, 8, 0, 0, 0, 0), Num 99]]\<rparr>)"
proof -
  let ?e = "attributes_example\<lparr>rows := []\<rparr>"
  let ?a = "attributes_example\<lparr>rows := [[Str ''M2'', Str ''P1'', Str ''T2'']]\<rparr>"
  have h1: "empty_frame ?e"
    by (simp add: empty_frame_def)
  have h2: "\<not> empty_frame ?a \<and> ''machine_id'' \<in> set (column_names ?a)
              \<and> ''machine_id'' \<in> set (column_names measurements_example)"
    by (simp add: empty_frame_def attributes_example_def measurements_example_def column_names_def)
  from filter_d2_by_d1_semi_join [of ?e measurements_example] h1
  obtain df where df: "filter_d2_by_d1 measurements_example ?e = Inr df" "rows df = []"
    "column_names df = column_names measurements_example"
    by blast
  have v1: "filter_d2_by_d1 measurements_example ?e =
       Inr \<lparr>columns = [(''machine_id'', Object), (''timestamp'', Object), (''value'', Object)],
            rows = []\<rparr>"
    by (simp add: measurements_example_def attributes_example_def frame_defs)
  from filter_d2_by_d1_semi_join [of ?a measurements_example] h2
  have "filter_d2_by_d1 measurements_example ?a =
        Inr (measurements_example\<lparr>rows := filter (\<lambda>r. value_in measurements_example ''machine_id'' r
                                        \<in> set (column_values ?a ''machine_id''))
                             (rows measurements_example)\<rparr>)"
    by blast
  then have v2: "filter_d2_by_d1 measurements_example ?a =
       Inr (measurements_example\<lparr>rows := [[Str ''M2'', Time (2024, 3, 1, 8, 0, 0, 0, 0), Num 99]]\<rparr>)"
    by (simp add: measurements_example_def attributes_example_def column_names_def spec_defs cell_at_def)
  from h1 h2 v1 v2 show ?thesis
    by simp
qed

section \<open>Aggregation engine: the series of averages\<close>

lemma num_of_mean: "num_of (mean fmean cs) = mean_of fmean (List.map_filter num_of cs)"
  by (simp add: mean_def mean_of_def split: list.splits option.splits)

lemma group_cells_rows:
  "group_cells (zip (map f xs) (map g xs)) t = map g (filter (\<lambda>r. f r = Time t) xs)"
  by (induction xs) (auto simp: group_cells_def)

lemma map_filter_map: "List.map_filter f (map g xs) = List.map_filter (f \<circ> g) xs"
  by (induction xs) (auto simp: map_filter_simps split: option.splits)

lemma times_of_Some:
  "\<forall>k \<in> set ks. fits Datetime k \<Longrightarrow> \<exists>ts. times_of ks = Some ts \<and> set ts = {t. Time t \<in> set ks}"
proof (induction ks)
  case Nil
  then show ?case by simp
next
  case (Cons k ks)
  then obtain ts where ts: "times_of ks = Some ts" "set ts = {t. Time t \<in> set ks}"
    by auto
  from Cons.prems have "fits Datetime k" by simp
  then show ?case
    using ts by (cases k) auto
qed

lemma index_of_nth:
  "index_of c (map fst cols) = Some i \<Longrightarrow> i < length cols \<and> map_of cols c = Some (snd (cols ! i))"
proof (induction cols arbitrary: i)
  case Nil
  then show ?case by simp
next
  case (Cons x cols)
  then show ?case
    by (cases x) (auto split: if_splits option.splits)
qed

lemma wf_frame_fits:
  assumes "wf_frame df" and "dtype_of df c = Some ty" and "r \<in> set (rows df)"
  shows "fits ty (value_in df c r)"
proof -
  from assms(2) have "c \<in> set (column_names df)"
    by (auto simp: dtype_of_def column_names_def dest: map_of_SomeD intro: rev_image_eqI)
  then obtain i where i: "index_of c (column_names df) = Some i"
    using index_of_Some_iff by blast
  then have il: "i < length (columns df)" and ty: "snd (columns df ! i) = ty"
    using index_of_nth [of c "columns df" i] assms(2) by (simp_all add: column_names_def dtype_of_def)
  from assms(1,3) have l2: "list_all2 fits (map snd (columns df)) r"
    by (simp add: wf_frame_def list_all_iff)
  then have "length r = length (columns df)"
    by (auto dest: list_all2_lengthD)
  moreover from l2 il have "fits (map snd (columns df) ! i) (r ! i)"
    by (simp add: list_all2_conv_all_nth)
  ultimately show ?thesis
    using i il ty by (simp add: value_in_def cell_at_def)
qed

lemma collect_map_Inr: "collect (map (\<lambda>x. Inr (f x)) xs) = Inr (map f xs)"
  by (induction xs) simp_all

lemma aggregate_points:
  assumes ts: "''timestamp'' \<in> set (column_names df)"
    and c: "c \<in> set (column_names df)" "c \<noteq> ''timestamp''"
    and fit: "\<forall>k \<in> set (column_values df ''timestamp''). fits Datetime k"
  shows "aggregate fmean df c =
           Inr (map (\<lambda>t. \<lparr>timestamp = isoformat t, avg = mean_of fmean (group_values df c t)\<rparr>)
                  (sorted_list_of_set {t. Time t \<in> set (column_values df ''timestamp'')}))"
proof -
  let ?ks = "column_values df ''timestamp''"
  let ?vs = "column_values df c"
  from times_of_Some [OF fit] obtain tl where tl: "times_of ?ks = Some tl" "set tl = {t. Time t \<in> set ?ks}"
    by blast
  let ?keys = "sort (remdups tl)"
  have keys: "?keys = sorted_list_of_set {t. Time t \<in> set ?ks}"
    using tl(2) by (metis sorted_list_of_set_sort_remdups)
  let ?row = "\<lambda>t. [Time t, mean fmean (group_cells (zip ?ks ?vs) t)]"
  let ?g = "\<lparr>columns = [(''timestamp'', Datetime), (c, Number)], rows = map ?row ?keys\<rparr>"
  have g: "groupby_mean fmean df c = Inr ?g"
    using ts c tl(1) by (simp add: groupby_mean_def series_column_values)
  have "map (\<lambda>r. time_key (cell_at 0 r)) (map ?row ?keys) = ?keys"
    by (simp add: comp_def cell_at_def)
  then have "sorted (map (\<lambda>r. time_key (cell_at 0 r)) (map ?row ?keys))"
    by simp
  then have srt: "sort_key (\<lambda>r. time_key (cell_at 0 r)) (map ?row ?keys) = map ?row ?keys"
    by (rule sort_key_id_if_sorted)
  have sv: "sort_values ?g = Inr ?g"
    by (simp add: sort_values_def column_names_def srt)
  have mean_eq: "num_of (mean fmean (group_cells (zip ?ks ?vs) t)) = mean_of fmean (group_values df c t)" for t
    unfolding column_values_def group_cells_rows num_of_mean group_values_def group_rows_def
    by (simp add: map_filter_map comp_def)
  have sp: "series_points ?g c =
              Inr (map (\<lambda>t. \<lparr>timestamp = isoformat t, avg = mean_of fmean (group_values df c t)\<rparr>) ?keys)"
    using c(2)
    by (simp add: series_points_def series_def column_names_def cell_at_def zip_map_map comp_def
        zip_same_conv_map mean_eq collect_map_Inr)
  have "aggregate fmean df c = series_points ?g c"
    by (simp only: aggregate_def g sv sum.case)
  with sp keys show ?thesis by simp
qed

lemma numeric_cols_find:
  "(case find (\<lambda>(n, t). t = Number) cols of None \<Rightarrow> [] | Some (n, t) \<Rightarrow> [n])
     = take 1 (map fst (filter (\<lambda>(n, t). t = Number) cols))"
  by (induction cols) auto

lemma build_avg_time_series_target:
  assumes "\<not> empty_frame df" and "''timestamp'' \<in> set (column_names df)"
  shows "build_avg_time_series fmean df = (case spec_target df of None \<Rightarrow> Inr [] | Some c \<Rightarrow> aggregate fmean df c)"
proof -
  have v: "(''value'' \<in> set (numeric_cols df)) = ((''value'', Number) \<in> set (columns df))"
    by (force simp: numeric_cols_def)
  have f: "map_option fst (find (\<lambda>(n, t). t = Number) (columns df))
             = (if numeric_cols df = [] then None else Some (hd (numeric_cols df)))"
    using numeric_cols_find [of "columns df"]
    by (cases "find (\<lambda>(n, t). t = Number) (columns df)";
        cases "filter (\<lambda>(n, t). t = Number) (columns df)") (auto simp: numeric_cols_def)
  show ?thesis
    using assms by (simp add: build_avg_time_series_def Let_def v f spec_target_def)
qed

lemma spec_target_numeric: "spec_target df = Some c \<Longrightarrow> (c, Number) \<in> set (columns df)"
  by (auto simp: spec_target_def find_Some_iff split: if_splits) (metis nth_mem)

lemma length_pad: "length (pad w n) = w"
  by (induction w n rule: pad.induct) simp_all

lemma digit_inj: "digit n = digit m \<Longrightarrow> n mod 10 = m mod 10"
proof -
  have d: "distinct ''0123456789''" by simp
  have l: "k mod 10 < length ''0123456789''" for k :: nat by simp
  assume "digit n = digit m"
  then show ?thesis
    unfolding digit_def using nth_eq_iff_index_eq [OF d l l] by blast
qed

lemma pad_inj: "n < 10 ^ w \<Longrightarrow> m < 10 ^ w \<Longrightarrow> pad w n = pad w m \<Longrightarrow> n = m"
proof (induction w arbitrary: n m)
  case 0
  then show ?case by simp
next
  case (Suc w)
  from Suc.prems(3) have p: "pad w (n div 10) = pad w (m div 10)" and d: "digit n = digit m"
    by simp_all
  from Suc.prems(1,2) have "n div 10 < 10 ^ w" "m div 10 < 10 ^ w"
    by (simp_all add: less_mult_imp_div_less mult.commute)
  with p have "n div 10 = m div 10"
    by (rule Suc.IH [rotated 2])
  moreover from d have "n mod 10 = m mod 10"
    by (rule digit_inj)
  ultimately show ?case
    by (metis div_mult_mod_eq)
qed

lemma isoformat_inj:
  assumes "valid_tstamp a" and "valid_tstamp b" and "isoformat a = isoformat b"
  shows "a = b"
proof -
  obtain y mo d h mi s us ns where a: "a = (y, mo, d, h, mi, s, us, ns)"
    by (cases a) auto
  obtain y' mo' d' h' mi' s' us' ns' where b: "b = (y', mo', d', h', mi', s', us', ns')"
    by (cases b) auto
  let ?f = "\<lambda>us ns. (if ns \<noteq> 0 then ''.'' @ pad 6 us @ pad 3 ns
      else if us \<noteq> 0 then ''.'' @ pad 6 us else [])"
  from assms(3) have e:
    "pad 4 y = pad 4 y'" "pad 2 mo = pad 2 mo'" "pad 2 d = pad 2 d'" "pad 2 h = pad 2 h'"
    "pad 2 mi = pad 2 mi'" "pad 2 s = pad 2 s'" "?f us ns = ?f us' ns'"
    unfolding a b isoformat.simps
    by (simp_all add: append_eq_append_conv length_pad del: pad.simps)
  from assms(1,2) have r: "y < 10 ^ 4" "y' < 10 ^ 4" "mo < 10 ^ 2" "mo' < 10 ^ 2" "d < 10 ^ 2" "d' < 10 ^ 2"
    "h < 10 ^ 2" "h' < 10 ^ 2" "mi < 10 ^ 2" "mi' < 10 ^ 2" "s < 10 ^ 2" "s' < 10 ^ 2"
    "us < 10 ^ 6" "us' < 10 ^ 6" "ns < 10 ^ 3" "ns' < 10 ^ 3"
    unfolding a b by simp_all
  have "y = y'" "mo = mo'" "d = d'" "h = h'" "mi = mi'" "s = s'"
    using e r by (blast intro: pad_inj)+
  moreover have "us = us' \<and> ns = ns'"
  proof -
    have len: "length (?f us ns) = length (?f us' ns')"
      using e(7) by simp
    show ?thesis
    proof (cases "ns = 0")
      case True
      note n0 = this
      show ?thesis
      proof (cases "us = 0")
        case True
        with n0 len show ?thesis
          by (auto simp: length_pad simp del: pad.simps split: if_splits)
      next
        case False
        with n0 len have n0': "ns' = 0" and u0': "us' \<noteq> 0"
          by (auto simp: length_pad simp del: pad.simps split: if_splits)
        with n0 False e(7) have "pad 6 us = pad 6 us'"
          by (simp del: pad.simps)
        with r have "us = us'" by (blast intro: pad_inj)
        with n0 n0' show ?thesis by simp
      qed
    next
      case False
      with len have n0': "ns' \<noteq> 0"
        by (auto simp: length_pad simp del: pad.simps split: if_splits)
      with False e(7) have "pad 6 us = pad 6 us'" "pad 3 ns = pad 3 ns'"
        by (simp_all add: append_eq_append_conv length_pad del: pad.simps)
      with r show ?thesis by (blast intro: pad_inj)
    qed
  qed
  ultimately show ?thesis
    unfolding a b by simp
qed

lemma aggregation_facts:
  assumes wf: "wf_frame df" and dt: "dtype_of df ''timestamp'' = Some Datetime"
    and tg: "spec_target df = Some c"
  shows "''timestamp'' \<in> set (column_names df)" and "c \<in> set (column_names df)"
    and "c \<noteq> ''timestamp''" and "\<forall>k \<in> set (column_values df ''timestamp''). fits Datetime k"
proof -
  from dt have td: "(''timestamp'', Datetime) \<in> set (columns df)"
    by (auto simp: dtype_of_def dest: map_of_SomeD)
  then show "''timestamp'' \<in> set (column_names df)"
    by (force simp: column_names_def)
  from tg have cn: "(c, Number) \<in> set (columns df)"
    by (rule spec_target_numeric)
  then show "c \<in> set (column_names df)"
    by (force simp: column_names_def)
  from wf have "distinct (map fst (columns df))"
    by (simp add: wf_frame_def column_names_def)
  with td cn show "c \<noteq> ''timestamp''"
    by (auto dest: eq_key_imp_eq_value)
  show "\<forall>k \<in> set (column_values df ''timestamp''). fits Datetime k"
    using wf_frame_fits [OF wf dt] by (auto simp: column_values_def)
qed

lemma build_avg_time_series_spec:
  assumes "wf_frame df" and "\<not> empty_frame df"
    and "dtype_of df ''timestamp'' = Some Datetime" and "spec_target df = Some c"
  shows "build_avg_time_series fmean df =
           Inr (map (\<lambda>t. \<lparr>timestamp = isoformat t, avg = mean_of fmean (group_values df c t)\<rparr>)
                  (sorted_list_of_set {t. Time t \<in> set (column_values df ''timestamp'')}))"
  using aggregation_facts [OF assms(1,3,4)] assms(2,4)
  by (simp add: build_avg_time_series_target aggregate_points)

lemma finite_times: "finite {t. Time t \<in> set ks}"
proof -
  have "{t. Time t \<in> set ks} \<subseteq> (\<lambda>k. time_key k) ` set ks"
    by force
  then show ?thesis
    by (rule finite_subset) simp
qed

lemma valid_times:
  assumes "wf_frame df" and "dtype_of df ''timestamp'' = Some Datetime"
    and "Time t \<in> set (column_values df ''timestamp'')"
  shows "valid_tstamp t"
proof -
  from assms(3) obtain r where "r \<in> set (rows df)" "value_in df ''timestamp'' r = Time t"
    by (auto simp: column_values_def)
  with wf_frame_fits [OF assms(1,2), of r] show ?thesis by simp
qed

text \<open>
  C7. A measurements subset that is empty, or that has no timestamp column, is averaged
  to the empty sequence; no error is raised.
\<close>

theorem build_avg_time_series_degenerate:
  "empty_frame df \<or> ''timestamp'' \<notin> set (column_names df) \<Longrightarrow> build_avg_time_series fmean df = Inr []"
  by (simp add: build_avg_time_series_def)

theorem build_avg_time_series_degenerate_witness:
  "empty_frame \<lparr>columns = [(''timestamp'', Datetime), (''value'', Number)], rows = []\<rparr>
   \<and> build_avg_time_series example_mean \<lparr>columns = [(''timestamp'', Datetime), (''value'', Number)], rows = []\<rparr> = Inr []
   \<and> ''timestamp'' \<notin> set (column_names \<lparr>columns = [(''machine_id'', Object), (''value'', Number)],
                                            rows = [[Str ''M1'', Num 3]]\<rparr>)
   \<and> build_avg_time_series example_mean \<lparr>columns = [(''machine_id'', Object), (''value'', Number)],
                             rows = [[Str ''M1'', Num 3]]\<rparr> = Inr []"
  using build_avg_time_series_degenerate
          [of "\<lparr>columns = [(''timestamp'', Datetime), (''value'', Number)], rows = []\<rparr>" example_mean]
        build_avg_time_series_degenerate
          [of "\<lparr>columns = [(''machine_id'', Object), (''value'', Number)], rows = [[Str ''M1'', Num 3]]\<rparr>" example_mean]
  by (simp add: empty_frame_def column_names_def)



text \<open>
  C4. The target column of \<^verbatim>\<open>build_avg_time_series\<close>: the numeric column named
  \<open>value\<close> if there is one; otherwise the first numeric column in column order; with no
  numeric column the result is the empty sequence. A subset with the numeric columns
  \<open>pressure\<close> and \<open>temperature\<close> and no \<open>value\<close> is averaged over \<open>pressure\<close>.
\<close>

theorem target_column_policy:
  assumes "\<not> empty_frame df" and "''timestamp'' \<in> set (column_names df)"
  shows "build_avg_time_series fmean df =
           (if (''value'', Number) \<in> set (columns df) then aggregate fmean df ''value''
            else case find (\<lambda>(n, t). t = Number) (columns df) of
                   Some (c, t) \<Rightarrow> aggregate fmean df c
                 | None \<Rightarrow> Inr [])"
  unfolding build_avg_time_series_target [OF assms]
  by (simp add: spec_target_def split: option.splits)

theorem target_column_policy_witness:
  "\<not> empty_frame pressure_example \<and> ''timestamp'' \<in> set (column_names pressure_example)
   \<and> (''value'', Number) \<notin> set (columns pressure_example)
   \<and> find (\<lambda>(n, t). t = Number) (columns pressure_example) = Some (''pressure'', Number)
   \<and> build_avg_time_series example_mean pressure_example = aggregate example_mean pressure_example ''pressure''
   \<and> build_avg_time_series example_mean pressure_example =
       Inr [\<lparr>timestamp = ''2024-03-01T08:00:00'', avg = Some 5\<rparr>]"
proof -
  have h1: "\<not> empty_frame pressure_example"
    by (simp add: empty_frame_def pressure_example_def)
  have h2: "''timestamp'' \<in> set (column_names pressure_example)"
    by (simp add: column_names_def pressure_example_def)
  have h3: "(''value'', Number) \<notin> set (columns pressure_example)"
    by (simp add: pressure_example_def)
  have h4: "find (\<lambda>(n, t). t = Number) (columns pressure_example) = Some (''pressure'', Number)"
    by (simp add: pressure_example_def)
  from target_column_policy [OF h1 h2] h3 h4
  have c: "build_avg_time_series example_mean pressure_example = aggregate example_mean pressure_example ''pressure''"
    by simp
  have "aggregate example_mean pressure_example ''pressure'' =
          Inr [\<lparr>timestamp = ''2024-03-01T08:00:00'', avg = Some 5\<rparr>]"
    by (simp add: pressure_example_def frame_defs aggregation_defs render_simps del: pad.simps)
  with c have v: "build_avg_time_series example_mean pressure_example =
       Inr [\<lparr>timestamp = ''2024-03-01T08:00:00'', avg = Some 5\<rparr>]"
    by simp
  show ?thesis
    by (intro conjI) (rule h1 h2 h3 h4 c v)+
qed

lemma map_filter_filter:
  "(\<And>x. \<not> Q x \<Longrightarrow> f x = None) \<Longrightarrow> List.map_filter f (filter Q xs) = List.map_filter f xs"
  by (induction xs) (auto simp: map_filter_simps split: option.splits)

lemma value_in_rows_update: "value_in (df\<lparr>rows := xs\<rparr>) c = value_in df c"
  by (simp add: value_in_def column_names_def fun_eq_iff)

lemma group_values_drop_null: "group_values (drop_null df c) c t = group_values df c t"
proof -
  let ?Q = "\<lambda>r. value_in df c r \<noteq> Null"
  let ?G = "\<lambda>r. value_in df ''timestamp'' r = Time t"
  have "filter ?G (filter ?Q (rows df)) = filter ?Q (filter ?G (rows df))"
    by (simp add: conj_commute)
  moreover have "List.map_filter (\<lambda>r. num_of (value_in df c r)) (filter ?Q (filter ?G (rows df)))
                   = List.map_filter (\<lambda>r. num_of (value_in df c r)) (filter ?G (rows df))"
    by (rule map_filter_filter) simp
  ultimately show ?thesis
    by (simp add: group_values_def group_rows_def drop_null_def value_in_rows_update)
qed

lemma group_point:
  assumes "wf_frame df" and "\<not> empty_frame df"
    and "dtype_of df ''timestamp'' = Some Datetime" and "spec_target df = Some c"
    and "Time t \<in> set (column_values df ''timestamp'')"
  shows "\<exists>pts. build_avg_time_series fmean df = Inr pts
           \<and> \<lparr>timestamp = isoformat t, avg = mean_of fmean (group_values df c t)\<rparr> \<in> set pts
           \<and> (\<forall>p \<in> set pts. timestamp p = isoformat t \<longrightarrow>
                 p = \<lparr>timestamp = isoformat t, avg = mean_of fmean (group_values df c t)\<rparr>)"
proof -
  let ?T = "{t. Time t \<in> set (column_values df ''timestamp'')}"
  let ?pt = "\<lambda>t. \<lparr>timestamp = isoformat t, avg = mean_of fmean (group_values df c t)\<rparr>"
  let ?pts = "map ?pt (sorted_list_of_set ?T)"
  have fin: "finite ?T" by (rule finite_times)
  have run: "build_avg_time_series fmean df = Inr ?pts"
    using assms(1-4) by (rule build_avg_time_series_spec)
  have mem: "?pt t \<in> set ?pts"
    using assms(5) fin by simp
  have uniq: "p = ?pt t" if "p \<in> set ?pts" "timestamp p = isoformat t" for p
  proof -
    from that(1) fin obtain t' where t': "t' \<in> ?T" "p = ?pt t'"
      by auto
    with that(2) have "isoformat t' = isoformat t"
      by simp
    moreover have "valid_tstamp t'" "valid_tstamp t"
      using t'(1) assms(5) valid_times [OF assms(1,3)] by simp_all
    ultimately have "t' = t"
      by (blast intro: isoformat_inj)
    with t'(2) show ?thesis by simp
  qed
  from run mem uniq show ?thesis
    by (intro exI [of _ ?pts]) blast
qed

lemma map_filter_nonempty: "List.map_filter f xs \<noteq> [] \<Longrightarrow> \<exists>x \<in> set xs. f x \<noteq> None"
  by (induction xs) (auto simp: map_filter_simps split: option.splits)

lemma drop_null_facts:
  assumes "wf_frame df" and "\<not> empty_frame df" and "group_values df c t \<noteq> []"
  shows "wf_frame (drop_null df c)" and "\<not> empty_frame (drop_null df c)"
    and "dtype_of (drop_null df c) = dtype_of df" and "spec_target (drop_null df c) = spec_target df"
    and "Time t \<in> set (column_values (drop_null df c) ''timestamp'')"
proof -
  from assms(3) have "\<exists>r \<in> set (group_rows df t). num_of (value_in df c r) \<noteq> None"
    unfolding group_values_def by (rule map_filter_nonempty)
  then obtain r where r: "r \<in> set (rows df)" "value_in df ''timestamp'' r = Time t"
    "num_of (value_in df c r) \<noteq> None"
    by (auto simp: group_rows_def)
  from r(3) have nn: "value_in df c r \<noteq> Null"
    by auto
  show "wf_frame (drop_null df c)"
    using assms(1) by (auto simp: wf_frame_def drop_null_def column_names_def list_all_iff)
  show "\<not> empty_frame (drop_null df c)"
    using assms(2) r(1) nn by (auto simp: empty_frame_def drop_null_def filter_empty_conv)
  show "dtype_of (drop_null df c) = dtype_of df"
    by (simp add: dtype_of_def drop_null_def fun_eq_iff)
  show "spec_target (drop_null df c) = spec_target df"
    by (simp add: spec_target_def drop_null_def)
  show "Time t \<in> set (column_values (drop_null df c) ''timestamp'')"
    using r(1,2) nn
    by (force simp: column_values_def drop_null_def value_in_rows_update)
qed

text \<open>
  C8. Rows whose target value is null do not enter the mean of their timestamp group.
  The series has exactly one point rendered as \<open>t\<close>, and it carries the float64 mean
  \<open>fmean\<close> of the non-null target values of the rows of group \<open>t\<close>, in row order (NaN when
  the group has none). Removing the null-valued rows from the table before averaging
  changes nothing for a group that has a value: \<^verbatim>\<open>build_avg_time_series\<close> then returns
  the same point for \<open>t\<close>. This holds whatever the float64 arithmetic of the mean is.
\<close>

theorem group_mean_skips_nulls:
  assumes "wf_frame df" and "\<not> empty_frame df"
    and "dtype_of df ''timestamp'' = Some Datetime" and "spec_target df = Some c"
    and "Time t \<in> set (column_values df ''timestamp'')"
  shows "\<exists>pts. build_avg_time_series fmean df = Inr pts
           \<and> \<lparr>timestamp = isoformat t, avg = mean_of fmean (group_values df c t)\<rparr> \<in> set pts
           \<and> (\<forall>p \<in> set pts. timestamp p = isoformat t \<longrightarrow> avg p = mean_of fmean (group_values df c t))
           \<and> (group_values df c t \<noteq> [] \<longrightarrow>
                (\<exists>pts'. build_avg_time_series fmean (drop_null df c) = Inr pts'
                    \<and> (\<forall>p. timestamp p = isoformat t \<longrightarrow> (p \<in> set pts') = (p \<in> set pts))))"
proof -
  let ?pt = "\<lparr>timestamp = isoformat t, avg = mean_of fmean (group_values df c t)\<rparr>"
  from group_point [OF assms, of fmean] obtain pts where
    run: "build_avg_time_series fmean df = Inr pts" and mem: "?pt \<in> set pts"
    and uniq: "\<forall>p \<in> set pts. timestamp p = isoformat t \<longrightarrow> p = ?pt"
    by blast
  have dropped: "\<exists>pts'. build_avg_time_series fmean (drop_null df c) = Inr pts'
                    \<and> (\<forall>p. timestamp p = isoformat t \<longrightarrow> (p \<in> set pts') = (p \<in> set pts))"
    if ne: "group_values df c t \<noteq> []"
  proof -
    note f = drop_null_facts [OF assms(1,2) ne]
    from group_point [OF f(1,2), of c t fmean] f(3,4,5) assms(3,4)
    obtain pts' where run': "build_avg_time_series fmean (drop_null df c) = Inr pts'"
      and mem': "\<lparr>timestamp = isoformat t, avg = mean_of fmean (group_values (drop_null df c) c t)\<rparr>
                   \<in> set pts'"
      and uniq': "\<forall>p \<in> set pts'. timestamp p = isoformat t \<longrightarrow>
            p = \<lparr>timestamp = isoformat t, avg = mean_of fmean (group_values (drop_null df c) c t)\<rparr>"
      by auto
    have same: "group_values (drop_null df c) c t = group_values df c t"
      by (rule group_values_drop_null)
    from mem' uniq' mem uniq have "\<forall>p. timestamp p = isoformat t \<longrightarrow> (p \<in> set pts') = (p \<in> set pts)"
      unfolding same by blast
    with run' show ?thesis by blast
  qed
  from uniq have "\<forall>p \<in> set pts. timestamp p = isoformat t \<longrightarrow> avg p = mean_of fmean (group_values df c t)"
    by auto
  with run mem dropped show ?thesis
    by blast
qed

theorem group_mean_skips_nulls_witness:
  "wf_frame measurements_example \<and> \<not> empty_frame measurements_example
   \<and> dtype_of measurements_example ''timestamp'' = Some Datetime
   \<and> spec_target measurements_example = Some ''value''
   \<and> Time (2024, 3, 1, 8, 0, 0, 0, 0) \<in> set (column_values measurements_example ''timestamp'')
   \<and> group_values measurements_example ''value'' (2024, 3, 1, 8, 0, 0, 0, 0) = [99, 10, 20]
   \<and> mean_of example_mean [99, 10, 20] = Some 43
   \<and> (\<exists>pts. build_avg_time_series example_mean measurements_example = Inr pts
          \<and> \<lparr>timestamp = ''2024-03-01T08:00:00'', avg = Some 43\<rparr> \<in> set pts
          \<and> (\<exists>pts'. build_avg_time_series example_mean (drop_null measurements_example ''value'')
                       = Inr pts'
                \<and> \<lparr>timestamp = ''2024-03-01T08:00:00'', avg = Some 43\<rparr> \<in> set pts'))"
proof -
  let ?t = "(2024, 3, 1, 8, 0, 0, 0, 0) :: tstamp"
  have h1: "wf_frame measurements_example"
    by (simp add: wf_frame_def measurements_example_def column_names_def)
  have h2: "\<not> empty_frame measurements_example"
    by (simp add: empty_frame_def measurements_example_def)
  have h3: "dtype_of measurements_example ''timestamp'' = Some Datetime"
    by (simp add: dtype_of_def measurements_example_def)
  have h4: "spec_target measurements_example = Some ''value''"
    by (simp add: spec_target_def measurements_example_def)
  have h5: "Time ?t \<in> set (column_values measurements_example ''timestamp'')"
    by (simp add: measurements_example_def column_values_def value_in_def column_names_def cell_at_def)
  have g: "group_values measurements_example ''value'' ?t = [99, 10, 20]"
    by (simp add: measurements_example_def group_values_def group_rows_def value_in_def
        column_names_def cell_at_def map_filter_simps)
  have m: "mean_of example_mean [99, 10, 20] = Some 43"
    by (simp add: mean_of_def example_mean_def)
  have i: "isoformat ?t = ''2024-03-01T08:00:00''"
    by (simp add: render_simps del: pad.simps)
  let ?p = "\<lparr>timestamp = ''2024-03-01T08:00:00'', avg = Some (43 :: rat)\<rparr>"
  from group_mean_skips_nulls [OF h1 h2 h3 h4 h5, of example_mean]
  obtain pts pts' where r: "build_avg_time_series example_mean measurements_example = Inr pts"
    "?p \<in> set pts"
    "build_avg_time_series example_mean (drop_null measurements_example ''value'') = Inr pts'"
    "\<forall>p. timestamp p = ''2024-03-01T08:00:00'' \<longrightarrow> (p \<in> set pts') = (p \<in> set pts)"
    unfolding g m i by auto
  from r(2,4) have "?p \<in> set pts'"
    by simp
  with r(1,2,3) have e: "\<exists>pts. build_avg_time_series example_mean measurements_example = Inr pts
          \<and> \<lparr>timestamp = ''2024-03-01T08:00:00'', avg = Some 43\<rparr> \<in> set pts
          \<and> (\<exists>pts'. build_avg_time_series example_mean (drop_null measurements_example ''value'')
                       = Inr pts'
                \<and> \<lparr>timestamp = ''2024-03-01T08:00:00'', avg = Some 43\<rparr> \<in> set pts')"
    by blast
  show ?thesis
    by (intro conjI) (rule h1 h2 h3 h4 h5 g m e)+
qed

section \<open>The endpoint: truncation, short-circuit, failure on an empty match\<close>

lemma length_to_dict: "length (to_dict df) = length (rows df)"
  by (simp add: to_dict_def)

lemma strftime_column_rows:
  "strftime_column df = Inr df' \<Longrightarrow> length (rows df') = length (rows df)"
  by (auto simp: strftime_column_def set_column_def split: option.splits if_splits)

text \<open>Whenever \<^verbatim>\<open>get_data\<close> gets as far as a response, the displayed rows are the first
  \<open>limit\<close> rows of the filtered subset and the averages are those of the whole subset.\<close>

lemma assemble_truncates:
  assumes "assemble fmean limit d2_filtered = Inr resp"
  shows "length (rows_out resp) = min limit (length (rows d2_filtered))"
    and "build_avg_time_series fmean d2_filtered = Inr (average resp)"
    and "''timestamp'' \<notin> set (column_names d2_filtered) \<Longrightarrow>
           rows_out resp = take limit (to_dict d2_filtered)"
proof -
  let ?rows0 = "head limit d2_filtered"
  from assms obtain rows1 where
    r1: "(if ''timestamp'' \<in> set (column_names ?rows0) then strftime_column ?rows0 else Inr ?rows0)
           = Inr rows1"
    and out: "rows_out resp = to_dict rows1"
    and avg: "build_avg_time_series fmean d2_filtered = Inr (average resp)"
    by (auto simp: assemble_def Let_def split: sum.splits)
  from r1 have "length (rows rows1) = length (rows ?rows0)"
    by (auto dest: strftime_column_rows split: if_splits)
  then show "length (rows_out resp) = min limit (length (rows d2_filtered))"
    by (simp add: out length_to_dict head_def min.commute)
  show "build_avg_time_series fmean d2_filtered = Inr (average resp)"
    by (rule avg)
  show "rows_out resp = take limit (to_dict d2_filtered)"
    if "''timestamp'' \<notin> set (column_names d2_filtered)"
    using that r1 out by (auto simp: head_def column_names_def to_dict_def take_map)
qed

text \<open>Row limit 2 and the five rows of machine M1: the first two rows are displayed, in
  their order; the averages are over all five.\<close>

lemma get_data_limit_two_of_five:
  "get_data_limit example_mean 2 attributes_example measurements_example (Some [''M1'']) None None =
     Inr \<lparr>rows_out =
            [[(''machine_id'', Str ''M1''), (''timestamp'', Str ''2024-03-01 08:00:05''),
              (''value'', Num 30)],
             [(''machine_id'', Str ''M1''), (''timestamp'', Str ''2024-03-01 08:00:00''),
              (''value'', Num 10)]],
          average =
            [\<lparr>timestamp = ''2024-03-01T08:00:00'', avg = Some 15\<rparr>,
             \<lparr>timestamp = ''2024-03-01T08:00:05'', avg = Some 30\<rparr>]\<rparr>"
  by (simp add: get_data_limit_def assemble_def attributes_example_def measurements_example_def
      frame_defs aggregation_defs render_simps del: pad.simps)

text \<open>
  C5. The response is to carry the first \<open>limit\<close> rows of the filtered subset and the
  averages of the whole subset, for every filtered subset. It does so whenever
  \<^verbatim>\<open>get_data\<close> produces a response (\<open>assemble_truncates\<close> above). It produces none
  when the selection matches no attribute row: \<^verbatim>\<open>filter_d2_by_d1\<close> then returns
  \<^verbatim>\<open>pd.DataFrame(columns=d2.columns)\<close>, whose columns are of dtype object, and
  \<^verbatim>\<open>rows["timestamp"].dt\<close> raises AttributeError on it. Here the selection is machine M1
  with part P7, a combination that no attribute row has.
\<close>

theorem get_data_no_match_raises:
  "get_data fmean attributes_example measurements_example (Some [''M1'']) (Some [''P7'']) None
     = Inl AttributeError"
  by (simp add: get_data_def get_data_limit_def assemble_def attributes_example_def
      measurements_example_def frame_defs)

text \<open>
  C10. Three selections that are present but empty are falsy, as absent ones are: the
  endpoint returns empty rows and an empty average and leaves the store as it is (no
  engine runs), instead of treating them as no constraint and returning the whole table.
\<close>

theorem get_data_empty_lists:
  "get_data fmean d1 d2 (Some []) (Some []) (Some []) = Inr \<lparr>rows_out = [], average = []\<rparr>
   \<and> get_data fmean d1 d2 (Some []) (Some []) (Some []) = get_data fmean d1 d2 None None None
   \<and> get_data_st fmean limit (Some []) (Some []) (Some []) s = (Inr \<lparr>rows_out = [], average = []\<rparr>, s)"
  by (simp add: get_data_def get_data_limit_def get_data_st_def)

section \<open>The store: what a request writes\<close>

lemma preserved_refl: "preserved s s"
  by (simp add: preserved_def)

lemma preserved_trans: "preserved s s' \<Longrightarrow> preserved s' s'' \<Longrightarrow> preserved s s''"
  by (auto simp: preserved_def intro: prefix_order.trans)

lemma preserved_enter: "preserved s (enter n s)"
  by (simp add: preserved_def enter_def)

lemma deref_enter: "deref (enter n s) r = deref s r"
  by (cases r) (simp_all add: enter_def)

lemma preserved_alloc: "alloc f s = (r, s') \<Longrightarrow> preserved s s'"
  by (auto simp: alloc_def preserved_def)

lemma alloc_deref: "alloc f s = (r, s') \<Longrightarrow> valid_ref s' r \<and> deref s' r = f"
  by (auto simp: alloc_def)

lemma preserved_deref:
  assumes "preserved s s'" and "valid_ref s r"
  shows "valid_ref s' r \<and> deref s' r = deref s r"
proof (cases r)
  case (Local n)
  from assms(1) obtain zs where zs: "locals s' = locals s @ zs"
    by (auto simp: preserved_def prefix_def)
  from assms(2) Local have "n < length (locals s)" by simp
  with zs Local show ?thesis by (simp add: nth_append)
qed (use assms(1) in \<open>simp_all add: preserved_def\<close>)

lemma assign_fresh:
  assumes "alloc f s = (r, s1)"
  shows "preserved s (assign r g s1) \<and> valid_ref (assign r g s1) r \<and> deref (assign r g s1) r = g"
  using assms by (auto simp: alloc_def preserved_def)

subsection \<open>The filter engine on the store\<close>

lemma restrict_st_preserved: "preserved s (snd (restrict_st c sel df s))"
  by (auto simp: restrict_st_def preserved_refl alloc_def preserved_def split: sum.splits)

lemma restrict_st_refines:
  assumes "valid_ref s df" and "restrict_st c sel df s = (out, s')"
  shows "ref_holds s' out (restrict c sel (deref s df))"
  using assms
  by (auto simp: restrict_st_def restrict_def ref_holds_def alloc_def split: sum.splits if_splits)

lemma filter_d1_st_preserved: "preserved s (snd (filter_d1_st d1 m p t s))"
proof -
  obtain df s1 where c: "copy_st d1 (enter ''filter_d1'' s) = (df, s1)"
    by fastforce
  have p1: "preserved s s1"
    using c preserved_alloc preserved_enter preserved_trans unfolding copy_st_def by blast
  obtain o2 s2 where r2: "restrict_st ''machine_id'' m df s1 = (o2, s2)" by fastforce
  have p2: "preserved s s2"
    using restrict_st_preserved [of s1 "''machine_id''" m df] r2 p1 preserved_trans by fastforce
  show ?thesis
  proof (cases o2)
    case (Inl e)
    with c r2 p2 show ?thesis by (simp add: filter_d1_st_def)
  next
    case (Inr df1)
    obtain o3 s3 where r3: "restrict_st ''part_number'' p df1 s2 = (o3, s3)" by fastforce
    have p3: "preserved s s3"
      using restrict_st_preserved [of s2 "''part_number''" p df1] r3 p2 preserved_trans by fastforce
    show ?thesis
    proof (cases o3)
      case (Inl e)
      with c r2 r3 p3 \<open>o2 = Inr df1\<close> show ?thesis by (simp add: filter_d1_st_def)
    next
      case (Inr df2)
      have "preserved s (snd (restrict_st ''tool_number'' t df2 s3))"
        using restrict_st_preserved [of s3 "''tool_number''" t df2] p3 preserved_trans by blast
      with c r2 r3 Inr \<open>o2 = Inr df1\<close> show ?thesis by (simp add: filter_d1_st_def)
    qed
  qed
qed

lemma filter_d1_st_refines:
  assumes "valid_ref s d1" and "filter_d1_st d1 m p t s = (out, s')"
  shows "ref_holds s' out (filter_d1 (deref s d1) m p t)"
proof -
  obtain df s1 where c: "copy_st d1 (enter ''filter_d1'' s) = (df, s1)"
    by fastforce
  then have v1: "valid_ref s1 df" and d1: "deref s1 df = deref s d1"
    using alloc_deref [of "deref (enter ''filter_d1'' s) d1" "enter ''filter_d1'' s" df s1]
    by (simp_all add: copy_st_def deref_enter)
  obtain o2 s2 where r2: "restrict_st ''machine_id'' m df s1 = (o2, s2)" by fastforce
  from restrict_st_refines [OF v1 r2]
  have h2: "ref_holds s2 o2 (restrict ''machine_id'' m (deref s d1))"
    by (simp add: d1)
  show ?thesis
  proof (cases o2)
    case (Inl e)
    with c r2 h2 assms(2) show ?thesis
      by (auto simp: filter_d1_st_def filter_d1_def ref_holds_def)
  next
    case (Inr df1)
    with h2 have v2: "valid_ref s2 df1"
      and e2: "restrict ''machine_id'' m (deref s d1) = Inr (deref s2 df1)"
      by (simp_all add: ref_holds_def)
    obtain o3 s3 where r3: "restrict_st ''part_number'' p df1 s2 = (o3, s3)" by fastforce
    from restrict_st_refines [OF v2 r3]
    have h3: "ref_holds s3 o3 (restrict ''part_number'' p (deref s2 df1))" .
    show ?thesis
    proof (cases o3)
      case (Inl e)
      with c r2 r3 h3 e2 assms(2) \<open>o2 = Inr df1\<close> show ?thesis
        by (auto simp: filter_d1_st_def filter_d1_def ref_holds_def)
    next
      case (Inr df2)
      with h3 have v3: "valid_ref s3 df2"
        and e3: "restrict ''part_number'' p (deref s2 df1) = Inr (deref s3 df2)"
        by (simp_all add: ref_holds_def)
      from c r2 r3 Inr \<open>o2 = Inr df1\<close> assms(2)
      have "restrict_st ''tool_number'' t df2 s3 = (out, s')"
        by (simp add: filter_d1_st_def)
      from restrict_st_refines [OF v3 this] e2 e3 show ?thesis
        by (simp add: filter_d1_def)
    qed
  qed
qed

lemma filter_d2_by_d1_st_preserved: "preserved s (snd (filter_d2_by_d1_st d2 d1f s))"
  by (auto simp: filter_d2_by_d1_st_def Let_def copy_st_def alloc_def preserved_def enter_def
      split: sum.splits)

lemma filter_d2_by_d1_st_refines:
  assumes "valid_ref s d2" and "valid_ref s d1f" and "filter_d2_by_d1_st d2 d1f s = (out, s')"
  shows "ref_holds s' out (filter_d2_by_d1 (deref s d2) (deref s d1f))"
  using assms
  by (auto simp: filter_d2_by_d1_st_def filter_d2_by_d1_def Let_def copy_st_def alloc_def
      ref_holds_def deref_enter nth_append split: sum.splits if_splits)
subsection \<open>The aggregation engine on the store\<close>

lemma aggregate_st_spec:
  "fst (aggregate_st fmean df c s) = aggregate fmean (deref s df) c \<and> preserved s (snd (aggregate_st fmean df c s))
   \<and> calls (snd (aggregate_st fmean df c s)) = calls s"
proof (cases "groupby_mean fmean (deref s df) c")
  case (Inl e)
  then show ?thesis
    by (simp add: aggregate_st_def aggregate_def preserved_refl)
next
  case (Inr g)
  obtain grouped s1 where a: "alloc g s = (grouped, s1)" by fastforce
  from alloc_deref [OF a] have d: "deref s1 grouped = g" by simp
  have c1: "calls s1 = calls s" using a by (auto simp: alloc_def)
  show ?thesis
  proof (cases "sort_values g")
    case (Inl e)
    with Inr a d c1 preserved_alloc [OF a] show ?thesis
      by (simp add: aggregate_st_def aggregate_def)
  next
    case (Inr g')
    from assign_fresh [OF a, of g']
    have "preserved s (assign grouped g' s1)" "deref (assign grouped g' s1) grouped = g'"
      by simp_all
    moreover have "calls (assign grouped g' s1) = calls s"
      using a by (auto simp: alloc_def)
    ultimately show ?thesis
      using \<open>groupby_mean fmean (deref s df) c = Inr g\<close> Inr a d
      by (simp add: aggregate_st_def aggregate_def Let_def)
  qed
qed

lemma build_avg_time_series_st_spec:
  "fst (build_avg_time_series_st fmean df s) = build_avg_time_series fmean (deref s df)
   \<and> preserved s (snd (build_avg_time_series_st fmean df s))
   \<and> calls (snd (build_avg_time_series_st fmean df s)) = calls s @ [''build_avg_time_series'']"
proof -
  let ?s = "enter ''build_avg_time_series'' s"
  have e: "deref ?s df = deref s df" "calls ?s = calls s @ [''build_avg_time_series'']"
    by (simp_all add: deref_enter) (simp add: enter_def)
  have p: "preserved s ?s" by (rule preserved_enter)
  have a: "fst (aggregate_st fmean df c ?s) = aggregate fmean (deref s df) c
           \<and> preserved s (snd (aggregate_st fmean df c ?s))
           \<and> calls (snd (aggregate_st fmean df c ?s)) = calls s @ [''build_avg_time_series'']" for c
    using aggregate_st_spec [of fmean df c ?s] e p preserved_trans by auto
  show ?thesis
    unfolding build_avg_time_series_st_def build_avg_time_series_def Let_def e
    using a p e(2) by simp
qed

subsection \<open>The endpoint on the store\<close>

lemma assemble_st_spec:
  assumes "valid_ref s d2f"
  shows "fst (assemble_st fmean limit d2f s) = assemble fmean limit (deref s d2f)
         \<and> preserved s (snd (assemble_st fmean limit d2f s))"
proof -
  obtain h s1 where a1: "alloc (head limit (deref s d2f)) s = (h, s1)" by fastforce
  obtain rows0 s2 where a2: "alloc (deref s1 h) s1 = (rows0, s2)" by fastforce
  from alloc_deref [OF a1] have d1: "deref s1 h = head limit (deref s d2f)" by simp
  from alloc_deref [OF a2] d1 have d2: "deref s2 rows0 = head limit (deref s d2f)" by simp
  have p1: "preserved s s1" using a1 by (rule preserved_alloc)
  have p2: "preserved s1 s2" using a2 by (rule preserved_alloc)
  have p02: "preserved s s2" using p1 p2 by (rule preserved_trans)
  have avg: "fst (build_avg_time_series_st fmean d2f s3) = build_avg_time_series fmean (deref s d2f)
             \<and> preserved s (snd (build_avg_time_series_st fmean d2f s3))"
    if "preserved s s3" for s3
    using build_avg_time_series_st_spec [of fmean d2f s3] preserved_deref [OF that assms]
      preserved_trans [OF that] by simp
  let ?rows = "head limit (deref s d2f)"
  show ?thesis
  proof (cases "''timestamp'' \<in> set (column_names ?rows)")
    case False
    with a1 a2 d2 avg [OF p02] show ?thesis
      by (auto simp: assemble_st_def assemble_def copy_st_def Let_def split: sum.splits prod.splits)
  next
    case True
    show ?thesis
    proof (cases "strftime_column ?rows")
      case (Inl e)
      with True a1 a2 d2 p02 show ?thesis
        by (simp add: assemble_st_def assemble_def copy_st_def Let_def)
    next
      case (Inr f)
      let ?s3 = "assign rows0 f s2"
      from assign_fresh [OF a2, of f] have p3: "preserved s1 ?s3" and d3: "deref ?s3 rows0 = f"
        by simp_all
      from p1 p3 have p03: "preserved s ?s3" by (rule preserved_trans)
      with True Inr a1 a2 d2 d3 avg [OF p03] show ?thesis
        by (auto simp: assemble_st_def assemble_def copy_st_def Let_def split: sum.splits prod.splits)
    qed
  qed
qed

lemma assemble_st_preserved: "preserved s (snd (assemble_st fmean limit d2f s))"
proof -
  obtain h s1 where a1: "alloc (head limit (deref s d2f)) s = (h, s1)" by fastforce
  obtain rows0 s2 where a2: "alloc (deref s1 h) s1 = (rows0, s2)" by fastforce
  have p1: "preserved s s1" using a1 by (rule preserved_alloc)
  have p2: "preserved s1 s2" using a2 by (rule preserved_alloc)
  have p02: "preserved s s2" using p1 p2 by (rule preserved_trans)
  have avg: "preserved s s4"
    if "preserved s s3" "build_avg_time_series_st fmean d2f s3 = (out, s4)" for s3 s4 out
    using build_avg_time_series_st_spec [of fmean d2f s3] preserved_trans [OF that(1)] that(2) by simp
  have p03: "preserved s (assign rows0 f s2)" for f
    using assign_fresh [OF a2, of f] p1 preserved_trans by blast
  show ?thesis
    using a1 a2 p02
    by (auto simp: assemble_st_def copy_st_def Let_def split: sum.splits prod.splits if_splits
        intro: avg [OF p02] avg [OF p03])
qed

lemma get_data_st_spec:
  "fst (get_data_st fmean limit m p t s) = get_data_limit fmean limit (D1 s) (D2 s) m p t
   \<and> preserved s (snd (get_data_st fmean limit m p t s))"
proof (cases "truthy m \<or> truthy p \<or> truthy t")
  case False
  then show ?thesis
    by (simp add: get_data_st_def get_data_limit_def preserved_refl)
next
  case True
  obtain o1 s1 where f1: "filter_d1_st RD1 m p t s = (o1, s1)" by fastforce
  have p1: "preserved s s1"
    using filter_d1_st_preserved [of s RD1 m p t] f1 by simp
  have h1: "ref_holds s1 o1 (filter_d1 (D1 s) m p t)"
    using filter_d1_st_refines [OF _ f1] by simp
  show ?thesis
  proof (cases o1)
    case (Inl e)
    with True f1 p1 h1 show ?thesis
      by (simp add: get_data_st_def get_data_limit_def ref_holds_def)
  next
    case (Inr d1f)
    with h1 have v1: "valid_ref s1 d1f" and e1: "filter_d1 (D1 s) m p t = Inr (deref s1 d1f)"
      by (simp_all add: ref_holds_def)
    obtain o2 s2 where f2: "filter_d2_by_d1_st RD2 d1f s1 = (o2, s2)" by fastforce
    have p2: "preserved s1 s2"
      using filter_d2_by_d1_st_preserved [of s1 RD2 d1f] f2 by simp
    have D2: "D2 s1 = D2 s" using p1 by (simp add: preserved_def)
    have h2: "ref_holds s2 o2 (filter_d2_by_d1 (D2 s) (deref s1 d1f))"
      using filter_d2_by_d1_st_refines [OF _ v1 f2] D2 by simp
    have p02: "preserved s s2" using p1 p2 by (rule preserved_trans)
    show ?thesis
    proof (cases o2)
      case (Inl e)
      with True f1 f2 \<open>o1 = Inr d1f\<close> e1 h2 p02 show ?thesis
        by (simp add: get_data_st_def get_data_limit_def ref_holds_def)
    next
      case (Inr d2f)
      with h2 have v2: "valid_ref s2 d2f"
        and e2: "filter_d2_by_d1 (D2 s) (deref s1 d1f) = Inr (deref s2 d2f)"
        by (simp_all add: ref_holds_def)
      from assemble_st_spec [OF v2, of fmean limit] p02
      have "fst (assemble_st fmean limit d2f s2) = assemble fmean limit (deref s2 d2f)"
        "preserved s (snd (assemble_st fmean limit d2f s2))"
        using preserved_trans by blast+
      with True f1 f2 \<open>o1 = Inr d1f\<close> Inr e1 e2 show ?thesis
        by (simp add: get_data_st_def get_data_limit_def)
    qed
  qed
qed

lemma restrict_st_calls: "calls (snd (restrict_st c sel df s)) = calls s"
  by (auto simp: restrict_st_def alloc_def split: sum.splits)

lemma filter_d1_st_calls: "calls (snd (filter_d1_st d1 m p t s)) = calls s @ [''filter_d1'']"
proof -
  obtain df s1 where c: "copy_st d1 (enter ''filter_d1'' s) = (df, s1)"
    by fastforce
  then have c1: "calls s1 = calls s @ [''filter_d1'']"
    by (auto simp: copy_st_def alloc_def enter_def)
  obtain o2 s2 where r2: "restrict_st ''machine_id'' m df s1 = (o2, s2)" by fastforce
  with restrict_st_calls [of "''machine_id''" m df s1] c1
  have c2: "calls s2 = calls s @ [''filter_d1'']" by simp
  show ?thesis
  proof (cases o2)
    case (Inl e)
    with c r2 c2 show ?thesis by (simp add: filter_d1_st_def)
  next
    case (Inr df1)
    obtain o3 s3 where r3: "restrict_st ''part_number'' p df1 s2 = (o3, s3)" by fastforce
    with restrict_st_calls [of "''part_number''" p df1 s2] c2
    have c3: "calls s3 = calls s @ [''filter_d1'']" by simp
    show ?thesis
    proof (cases o3)
      case (Inl e)
      with c r2 r3 c3 \<open>o2 = Inr df1\<close> show ?thesis by (simp add: filter_d1_st_def)
    next
      case (Inr df2)
      have "calls (snd (restrict_st ''tool_number'' t df2 s3)) = calls s @ [''filter_d1'']"
        using restrict_st_calls [of "''tool_number''" t df2 s3] c3 by simp
      with c r2 r3 Inr \<open>o2 = Inr df1\<close> show ?thesis by (simp add: filter_d1_st_def)
    qed
  qed
qed

lemma filter_d2_by_d1_st_calls:
  "calls (snd (filter_d2_by_d1_st d2 d1f s)) = calls s @ [''filter_d2_by_d1'']"
  by (auto simp: filter_d2_by_d1_st_def Let_def copy_st_def alloc_def enter_def split: sum.splits)

text \<open>
  C6. With none of the three parameters supplied, \<^verbatim>\<open>get_data\<close> returns empty rows and an
  empty average and the store is exactly what it was: nothing was allocated and the trace
  of engine calls is unchanged, whereas each engine, when it runs, extends the trace. The
  result does not depend on what the tables hold.
\<close>

theorem get_data_short_circuit:
  "get_data_st fmean limit None None None s = (Inr \<lparr>rows_out = [], average = []\<rparr>, s)
   \<and> calls (snd (filter_d1_st d1 m p t s)) = calls s @ [''filter_d1'']
   \<and> calls (snd (filter_d2_by_d1_st d2 d1f s)) = calls s @ [''filter_d2_by_d1'']
   \<and> calls (snd (build_avg_time_series_st fmean df s)) = calls s @ [''build_avg_time_series'']"
  using filter_d1_st_calls [of d1 m p t s] filter_d2_by_d1_st_calls [of d2 d1f s]
    build_avg_time_series_st_spec [of fmean df s]
  by (simp add: get_data_st_def)

text \<open>
  C9. Filtering, derivation of the measurements subset, averaging and the assembly of a
  response (timestamp reformatting included) write only into objects they have created
  themselves: after each of them D1, D2, D3 and every other object that existed before
  hold what they held. The outcome of a request is the function \<open>get_data_limit\<close> of the
  contents of D1 and D2 and of the selection, so a second run, on the store the first run
  left, has the same outcome.
\<close>

theorem operations_are_pure:
  "preserved s (snd (filter_d1_st d1 m p t s))
   \<and> preserved s (snd (filter_d2_by_d1_st d2 d1f s))
   \<and> preserved s (snd (build_avg_time_series_st fmean df s))
   \<and> preserved s (snd (assemble_st fmean limit d2f s))
   \<and> preserved s (snd (get_data_st fmean limit m p t s))
   \<and> fst (get_data_st fmean limit m p t s) = get_data_limit fmean limit (D1 s) (D2 s) m p t
   \<and> fst (get_data_st fmean limit m p t (snd (get_data_st fmean limit m p t s)))
       = fst (get_data_st fmean limit m p t s)"
proof -
  let ?s' = "snd (get_data_st fmean limit m p t s)"
  have p: "preserved s ?s'"
    and f: "fst (get_data_st fmean limit m p t s) = get_data_limit fmean limit (D1 s) (D2 s) m p t"
    using get_data_st_spec [of fmean limit m p t s] by simp_all
  from p have "D1 ?s' = D1 s" "D2 ?s' = D2 s"
    by (simp_all add: preserved_def)
  with get_data_st_spec [of fmean limit m p t ?s'] f
  have again: "fst (get_data_st fmean limit m p t ?s') = fst (get_data_st fmean limit m p t s)"
    by simp
  show ?thesis
    using filter_d1_st_preserved [of s d1 m p t] filter_d2_by_d1_st_preserved [of s d2 d1f]
      build_avg_time_series_st_spec [of fmean df s] assemble_st_preserved [of s fmean limit d2f] p f again
    by simp
qed

theorem operations_are_pure_witness:
  "fst (get_data_st example_mean 2 (Some [''M1'']) None None store_example) =
     Inr \<lparr>rows_out =
            [[(''machine_id'', Str ''M1''), (''timestamp'', Str ''2024-03-01 08:00:05''),
              (''value'', Num 30)],
             [(''machine_id'', Str ''M1''), (''timestamp'', Str ''2024-03-01 08:00:00''),
              (''value'', Num 10)]],
          average =
            [\<lparr>timestamp = ''2024-03-01T08:00:00'', avg = Some 15\<rparr>,
             \<lparr>timestamp = ''2024-03-01T08:00:05'', avg = Some 30\<rparr>]\<rparr>
   \<and> D1 (snd (get_data_st example_mean 2 (Some [''M1'']) None None store_example)) = attributes_example
   \<and> D2 (snd (get_data_st example_mean 2 (Some [''M1'']) None None store_example)) = measurements_example"
  using operations_are_pure [of store_example RD1 "Some [''M1'']" None None RD2 RD1 example_mean RD2 2 RD2]
    get_data_limit_two_of_five
  by (simp add: store_example_def preserved_def)

end
